theory Spec2Isabelle
  imports Complex_Main
begin

section \<open>The interactions worker (src/worker.js)\<close>

text \<open>
  The worker is a single ECMAScript module: a table \<open>COMMAND_HANDLERS\<close>, the exported
  \<open>fetch\<close> function, five command handlers and two response helpers. This theory
  embeds it function by function. The conventions of the embedding:

  \<^item> A JavaScript string is a \<^typ>\<open>string\<close> holding its UTF-8 bytes. The embedding covers
    well-formed strings (no lone surrogates); on those, equality, emptiness and
    concatenation of the byte strings are those of the JavaScript strings.
  \<^item> A value produced by \<open>JSON.parse\<close> is a \<open>json\<close>; the value \<open>undefined\<close>, which
    a property read can produce and \<open>JSON.parse\<close> cannot, is \<open>None\<close> of \<open>json option\<close>.
  \<^item> A completion that throws (or a promise that rejects) is \<open>Inl\<close> of a sum, or the
    outcome \<open>Threw\<close>.
  \<^item> What the module imports from the host and from the package
    \<open>discord-interactions\<close> is a parameter, the record \<open>runtime\<close>.
\<close>

subsection \<open>Values\<close>

text \<open>
  A number is a double. \<open>JSON.parse\<close> never yields NaN; it yields an infinity for a
  literal beyond the range of doubles. Every other double is a rational; the two zeros
  are both \<open>Finite 0\<close> (the module cannot tell them apart: both are falsy, both
  differ from 1 and 2, both print as \<open>0\<close>).
\<close>

datatype number = Finite rat | PosInfinity | NegInfinity

text \<open>
  An object is the list of its own properties in insertion order, each key once
  (\<open>JSON.parse\<close> keeps the last of duplicated keys).
\<close>

datatype json =
    JNull
  | JBool bool
  | JNum number
  | JStr string
  | JArr "json list"
  | JObj "(string \<times> json) list"

datatype js_error = SyntaxError | TypeError

record runtime =
  verifyKey :: "string \<Rightarrow> string \<Rightarrow> string \<Rightarrow> string option \<Rightarrow> bool"
    \<comment> \<open>\<open>verifyKey(body, signature, timestamp, clientPublicKey)\<close> of discord-interactions,
        the boolean that \<open>fetch\<close> tests with \<open>!\<close>\<close>
  JSON_parse :: "string \<Rightarrow> json option"
    \<comment> \<open>\<open>JSON.parse\<close>; \<open>None\<close> when it throws its SyntaxError\<close>
  Number_format :: "rat \<Rightarrow> string"
    \<comment> \<open>\<open>Number::toString\<close> on the finite doubles that are not integers of magnitude up
        to \<open>2^53\<close>\<close>

subsection \<open>Conversions of the language\<close>

text \<open>\<open>ToBoolean\<close>, as \<open>!x\<close> and \<open>if (x)\<close> apply it.\<close>

fun ToBoolean :: "json option \<Rightarrow> bool" where
  "ToBoolean None = False"
| "ToBoolean (Some JNull) = False"
| "ToBoolean (Some (JBool b)) = b"
| "ToBoolean (Some (JNum n)) = (n \<noteq> Finite 0)"
| "ToBoolean (Some (JStr s)) = (s \<noteq> [])"
| "ToBoolean (Some (JArr xs)) = True"
| "ToBoolean (Some (JObj kvs)) = True"

text \<open>
  \<open>Number::toString\<close>. An integer of magnitude up to \<open>2^53\<close> prints as its decimal
  digits and an infinity by its name; the other doubles are printed by the host.
\<close>

fun decimal :: "nat \<Rightarrow> string" where
  "decimal n =
     (if n < 10 then [''0123456789'' ! n]
      else decimal (n div 10) @ [''0123456789'' ! (n mod 10)])"

declare decimal.simps [simp del]

definition Number_toString :: "runtime \<Rightarrow> number \<Rightarrow> string" where
  "Number_toString rt n =
     (case n of
        Finite q \<Rightarrow>
          if of_int \<lfloor>q\<rfloor> = q \<and> \<bar>q\<bar> \<le> 9007199254740992
          then (if q < 0 then ''-'' else '''') @ decimal (nat \<bar>\<lfloor>q\<rfloor>\<bar>)
          else Number_format rt q
      | PosInfinity \<Rightarrow> ''Infinity''
      | NegInfinity \<Rightarrow> ''-Infinity'')"

text \<open>
  \<open>ToString\<close> of a value, which is also \<open>ToPropertyKey\<close> (no value here is a symbol).
  An array goes through \<open>Array.prototype.join\<close>: its elements are converted in order,
  \<open>null\<close> as the empty string, and separated by commas. An object goes through
  \<open>OrdinaryToPrimitive\<close>: an own property \<open>toString\<close> holds data, which is not
  callable, and \<open>valueOf\<close> then yields no primitive, so the conversion throws; without
  one, \<open>Object.prototype.toString\<close> answers.
\<close>

fun join :: "string \<Rightarrow> string list \<Rightarrow> string" where
  "join sep [] = []"
| "join sep [s] = s"
| "join sep (s # t # ss) = s @ sep @ join sep (t # ss)"

text \<open>
  The comma-separated join of converted elements; the conversions run from the left,
  and the first one that throws ends the join.
\<close>

fun join_converted :: "(js_error + string) list \<Rightarrow> js_error + string" where
  "join_converted [] = Inr []"
| "join_converted (Inl e # rs) = Inl e"
| "join_converted [Inr s] = Inr s"
| "join_converted (Inr s # r # rs) =
     (case join_converted (r # rs) of
        Inl e \<Rightarrow> Inl e
      | Inr t \<Rightarrow> Inr (s @ '','' @ t))"

fun ToString_json :: "runtime \<Rightarrow> json \<Rightarrow> js_error + string" where
  "ToString_json rt JNull = Inr ''null''"
| "ToString_json rt (JBool b) = Inr (if b then ''true'' else ''false'')"
| "ToString_json rt (JNum n) = Inr (Number_toString rt n)"
| "ToString_json rt (JStr s) = Inr s"
| "ToString_json rt (JArr xs) =
     join_converted (map (\<lambda>x. if x = JNull then Inr [] else ToString_json rt x) xs)"
| "ToString_json rt (JObj kvs) =
     (if map_of kvs ''toString'' \<noteq> None then Inl TypeError else Inr ''[object Object]'')"

fun ToString :: "runtime \<Rightarrow> json option \<Rightarrow> js_error + string" where
  "ToString rt None = Inr ''undefined''"
| "ToString rt (Some v) = ToString_json rt v"

text \<open>
  A property read \<open>v.p\<close>. It throws on \<open>null\<close> and \<open>undefined\<close>. The module reads
  the properties \<open>type\<close>, \<open>data\<close>, \<open>name\<close>, \<open>options\<close> and \<open>value\<close> of parsed
  values; none of the prototypes of objects, arrays, strings, numbers and booleans
  defines one of them, so the read yields an own property of an object and
  \<open>undefined\<close> everywhere else.
\<close>

fun Get :: "json option \<Rightarrow> string \<Rightarrow> js_error + json option" where
  "Get None p = Inl TypeError"
| "Get (Some JNull) p = Inl TypeError"
| "Get (Some (JObj kvs)) p = Inr (map_of kvs p)"
| "Get (Some v) p = Inr None"

subsection \<open>\<open>JSON.stringify\<close>\<close>

text \<open>
  \<open>QuoteJSONString\<close>: the quotation mark, the backslash and the control characters
  are escaped, every other character stands for itself.
\<close>

definition hex_digit :: "nat \<Rightarrow> char" where
  "hex_digit d = ''0123456789abcdef'' ! (d mod 16)"

definition quote_char :: "char \<Rightarrow> string" where
  "quote_char c =
     (let n = (of_char c :: nat) in
      if n = 8 then [CHR 0x5C, CHR ''b'']
      else if n = 9 then [CHR 0x5C, CHR ''t'']
      else if n = 10 then [CHR 0x5C, CHR ''n'']
      else if n = 12 then [CHR 0x5C, CHR ''f'']
      else if n = 13 then [CHR 0x5C, CHR ''r'']
      else if n = 34 then [CHR 0x5C, CHR 0x22]
      else if n = 92 then [CHR 0x5C, CHR 0x5C]
      else if n < 32 then [CHR 0x5C, CHR ''u'', CHR ''0'', CHR ''0'', hex_digit (n div 16), hex_digit (n mod 16)]
      else [c])"

definition QuoteJSONString :: "string \<Rightarrow> string" where
  "QuoteJSONString s = [CHR 0x22] @ concat (map quote_char s) @ [CHR 0x22]"

text \<open>
  \<open>JSON.stringify\<close> with no replacer and no indentation, on a parsed or literal value.
  An infinite number is written \<open>null\<close>.
\<close>

fun JSON_stringify :: "runtime \<Rightarrow> json \<Rightarrow> string" where
  "JSON_stringify rt JNull = ''null''"
| "JSON_stringify rt (JBool b) = (if b then ''true'' else ''false'')"
| "JSON_stringify rt (JNum (Finite q)) = Number_toString rt (Finite q)"
| "JSON_stringify rt (JNum n) = ''null''"
| "JSON_stringify rt (JStr s) = QuoteJSONString s"
| "JSON_stringify rt (JArr xs) = ''['' @ join '','' (map (JSON_stringify rt) xs) @ '']''"
| "JSON_stringify rt (JObj kvs) =
     ''{'' @ join '','' (map (\<lambda>kv. QuoteJSONString (fst kv) @ '':'' @ JSON_stringify rt (snd kv)) kvs) @ ''}''"

subsection \<open>Requests, responses and what a call of the worker leaves behind\<close>

text \<open>
  Of a \<open>Request\<close> the worker reads \<open>method\<close>, headers by name
  (\<open>request.headers.get\<close>, \<open>None\<close> for its \<open>null\<close>) and the body text
  (\<open>await request.text()\<close>); of \<open>env\<close> it reads \<open>DISCORD_PUBLIC_KEY\<close>, which is
  \<open>None\<close> when the variable is not configured.
\<close>

record request =
  request_method :: string
  headers_get :: "string \<Rightarrow> string option"
  request_text :: string

record env =
  DISCORD_PUBLIC_KEY :: "string option"

text \<open>
  A \<open>Response\<close> as the module constructs it: the body, the status and the headers it
  passes to the constructor.
\<close>

record response =
  status :: nat
  headers :: "(string \<times> string) list"
  body :: string

text \<open>
  The result of an (async) function of the module: it returns a \<open>Response\<close>, it throws,
  or it returns a value that is not a \<open>Response\<close>.
\<close>

datatype outcome = Responded response | Threw js_error | Not_a_Response

text \<open>
  The calls \<open>fetch\<close> makes outside its own body, in the order it makes them. They are
  recorded so that "before any body processing", "no parsing" and "no handler is invoked"
  are statements about a run.
\<close>

datatype call =
    Call_headers_get string
  | Call_text
  | Call_verifyKey
  | Call_JSON_parse
  | Call_handler string  \<comment> \<open>\<open>handler(interaction, env)\<close>, with the key the handler was found under\<close>

subsection \<open>Response helpers\<close>

text \<open>
  \<open>jsonResponse(data, status = 200)\<close>; no caller passes a status. The colour
  \<open>0xbebefe\<close> of the embeds is 12500734.
\<close>

definition jsonResponse :: "runtime \<Rightarrow> json \<Rightarrow> response" where
  "jsonResponse rt data =
     \<lparr>status = 200,
      headers = [(''Content-Type'', ''application/json'')],
      body = JSON_stringify rt data\<rparr>"

definition featureComingSoonResponse :: "runtime \<Rightarrow> string \<Rightarrow> response" where
  "featureComingSoonResponse rt commandName =
     jsonResponse rt (JObj
       [(''type'', JNum (Finite 4)),
        (''data'', JObj
          [(''embeds'', JArr
             [JObj
                [(''title'', JStr ''Feature in Development''),
                 (''description'', JStr (''The `'' @ commandName @
                    ''` command is available in the traditional bot deployment. Full Cloudflare Workers implementation coming soon!'')),
                 (''color'', JNum (Finite 12500734)),
                 (''footer'', JObj
                    [(''text'', JStr ''Use the traditional bot (bot.py) for full functionality'')])]]),
           (''flags'', JNum (Finite 64))])])"

subsection \<open>Command handlers\<close>

text \<open>The title of the ping embed starts with U+1F3D3, four bytes in UTF-8.\<close>

definition handlePingCommand :: "runtime \<Rightarrow> json \<Rightarrow> env \<Rightarrow> outcome" where
  "handlePingCommand rt interaction env =
     Responded (jsonResponse rt (JObj
       [(''type'', JNum (Finite 4)),
        (''data'', JObj
          [(''embeds'', JArr
             [JObj
                [(''title'', JStr ([CHR 0xF0, CHR 0x9F, CHR 0x8F, CHR 0x93] @ '' Pong!'')),
                 (''description'', JStr ''Bot is running on Cloudflare Workers!''),
                 (''color'', JNum (Finite 12500734))]])])]))"

text \<open>
  \<open>Array.prototype.find\<close>: the first element the predicate accepts, \<open>undefined\<close> when
  there is none; a predicate that throws ends the search.
\<close>

fun Array_find :: "(json \<Rightarrow> js_error + bool) \<Rightarrow> json list \<Rightarrow> js_error + json option" where
  "Array_find p [] = Inr None"
| "Array_find p (x # xs) =
     (case p x of
        Inl e \<Rightarrow> Inl e
      | Inr b \<Rightarrow> if b then Inr (Some x) else Array_find p xs)"

text \<open>The arrow function \<open>opt => opt.name === 'auth_key'\<close>.\<close>

definition is_auth_key :: "json \<Rightarrow> js_error + bool" where
  "is_auth_key opt =
     (case Get (Some opt) ''name'' of
        Inl e \<Rightarrow> Inl e
      | Inr name \<Rightarrow> Inr (name = Some (JStr ''auth_key'')))"

text \<open>
  The expression \<open>interaction.data.options?.find(opt => opt.name === 'auth_key')?.value\<close>.
  The first \<open>?.\<close> ends the whole chain with \<open>undefined\<close> when \<open>options\<close> is \<open>null\<close>
  or \<open>undefined\<close>. Otherwise \<open>options.find\<close> is called: on an array it is
  \<open>Array.prototype.find\<close>; on anything else it is \<open>undefined\<close> or data, and calling it
  throws. The second \<open>?.\<close> yields \<open>undefined\<close> when nothing was found.
\<close>

definition authKey_expression :: "json \<Rightarrow> js_error + json option" where
  "authKey_expression interaction =
     (case Get (Some interaction) ''data'' of
        Inl e \<Rightarrow> Inl e
      | Inr data \<Rightarrow>
     (case Get data ''options'' of
        Inl e \<Rightarrow> Inl e
      | Inr options \<Rightarrow>
     (case options of
        None \<Rightarrow> Inr None
      | Some JNull \<Rightarrow> Inr None
      | Some (JArr opts) \<Rightarrow>
          (case Array_find is_auth_key opts of
             Inl e \<Rightarrow> Inl e
           | Inr None \<Rightarrow> Inr None
           | Inr (Some found) \<Rightarrow> Get (Some found) ''value'')
      | Some _ \<Rightarrow> Inl TypeError)))"

definition handleLoginCommand :: "runtime \<Rightarrow> json \<Rightarrow> env \<Rightarrow> outcome" where
  "handleLoginCommand rt interaction env =
     (case authKey_expression interaction of
        Inl e \<Rightarrow> Threw e
      | Inr authKey \<Rightarrow>
          if \<not> ToBoolean authKey
          then Responded (jsonResponse rt (JObj
                 [(''type'', JNum (Finite 4)),
                  (''data'', JObj
                     [(''content'', JStr ''Auth key is required''),
                      (''flags'', JNum (Finite 64))])]))
          else Responded (featureComingSoonResponse rt ''login''))"

definition handleStartShiftCommand :: "runtime \<Rightarrow> json \<Rightarrow> env \<Rightarrow> outcome" where
  "handleStartShiftCommand rt interaction env = Responded (featureComingSoonResponse rt ''start-shift'')"

definition handleEndShiftCommand :: "runtime \<Rightarrow> json \<Rightarrow> env \<Rightarrow> outcome" where
  "handleEndShiftCommand rt interaction env = Responded (featureComingSoonResponse rt ''end-shift'')"

definition handleShiftStatusCommand :: "runtime \<Rightarrow> json \<Rightarrow> env \<Rightarrow> outcome" where
  "handleShiftStatusCommand rt interaction env = Responded (featureComingSoonResponse rt ''shift-status'')"

subsection \<open>The handler table and its property lookup\<close>

text \<open>
  \<open>COMMAND_HANDLERS\<close> is an object literal: its own properties are the five handlers,
  and its prototype is \<open>Object.prototype\<close>. The lookup \<open>COMMAND_HANDLERS[commandName]\<close>
  is an ordinary property read, so a key that is no own property is looked up in the
  prototype.

  The binding is \<open>const\<close>, the object it names is mutable, and it lives as long as
  the loaded module: it is the state of the module that one call of \<open>fetch\<close> could
  leave to the next. The state is modelled as the list of the own properties of that
  object; the constant \<open>COMMAND_HANDLERS\<close> is its value when the module has been
  loaded. A handler is a function of its arguments: no handler body (lines 84 to 137)
  names a binding of the module other than the two response helpers, and none assigns
  to anything.
\<close>

type_synonym handler = "runtime \<Rightarrow> json \<Rightarrow> env \<Rightarrow> outcome"

type_synonym module_state = "(string \<times> handler) list"

datatype property = Function handler | Not_callable

definition COMMAND_HANDLERS :: module_state where
  "COMMAND_HANDLERS =
     [(''ping'', handlePingCommand),
      (''login'', handleLoginCommand),
      (''start-shift'', handleStartShiftCommand),
      (''end-shift'', handleEndShiftCommand),
      (''shift-status'', handleShiftStatusCommand)]"

text \<open>
  The properties of \<open>Object.prototype\<close>, as functions of the arguments
  \<open>(interaction, env)\<close> of a call \<open>handler(interaction, env)\<close> in module code, where
  \<open>this\<close> is \<open>undefined\<close>:
  \<^item> \<open>constructor\<close> is \<open>Object\<close>, which returns its argument object;
  \<^item> \<open>toString\<close> returns the string \<open>[object Undefined]\<close>;
  \<^item> \<open>isPrototypeOf\<close> returns \<open>false\<close> for an argument that is no object, and
    otherwise, like the other functions, converts \<open>this\<close> to an object, which throws
    a TypeError;
  \<^item> \<open>__proto__\<close> reads as \<open>Object.prototype\<close> itself, an object that is truthy and
    not callable.
\<close>

definition Object_prototype :: "(string \<times> property) list" where
  "Object_prototype =
     [(''constructor'', Function (\<lambda>rt interaction env. Not_a_Response)),
      (''__defineGetter__'', Function (\<lambda>rt interaction env. Threw TypeError)),
      (''__defineSetter__'', Function (\<lambda>rt interaction env. Threw TypeError)),
      (''hasOwnProperty'', Function (\<lambda>rt interaction env. Threw TypeError)),
      (''__lookupGetter__'', Function (\<lambda>rt interaction env. Threw TypeError)),
      (''__lookupSetter__'', Function (\<lambda>rt interaction env. Threw TypeError)),
      (''isPrototypeOf'', Function (\<lambda>rt interaction env.
         case interaction of
           JObj kvs \<Rightarrow> Threw TypeError
         | JArr xs \<Rightarrow> Threw TypeError
         | _ \<Rightarrow> Not_a_Response)),
      (''propertyIsEnumerable'', Function (\<lambda>rt interaction env. Threw TypeError)),
      (''toString'', Function (\<lambda>rt interaction env. Not_a_Response)),
      (''valueOf'', Function (\<lambda>rt interaction env. Threw TypeError)),
      (''__proto__'', Not_callable),
      (''toLocaleString'', Function (\<lambda>rt interaction env. Threw TypeError))]"

text \<open>The read \<open>COMMAND_HANDLERS[key]\<close> in a state of the module.\<close>

definition COMMAND_HANDLERS_get :: "module_state \<Rightarrow> string \<Rightarrow> property option" where
  "COMMAND_HANDLERS_get table key =
     (case map_of table key of
        Some h \<Rightarrow> Some (Function h)
      | None \<Rightarrow> map_of Object_prototype key)"

subsection \<open>The entry point\<close>

text \<open>
  \<open>fetch(request, env)\<close>, called in a state of the module. The result is the list of
  calls made and the outcome, and the state the call leaves. The two reads of
  \<open>interaction.type\<close> are one read here (the second cannot differ from the first),
  and so are the two conversions of \<open>commandName\<close> to a string (as property key and
  in the template literal). The function reads the table once, at the lookup; it
  assigns to nothing but its own locals, and what it calls gets no hold of the table
  (a handler does not name it, and an inherited function is called with \<open>this\<close>
  undefined), so on every path the state it leaves is the state it found.
\<close>

definition fetch_on ::
  "module_state \<Rightarrow> runtime \<Rightarrow> request \<Rightarrow> env \<Rightarrow> (call list \<times> outcome) \<times> module_state" where
  "fetch_on table rt request env =
    ((if request_method request \<noteq> ''POST''
      then ([], Responded \<lparr>status = 405, headers = [], body = ''Method not allowed''\<rparr>)
      else
       (let c1 = [Call_headers_get ''X-Signature-Ed25519'',
                  Call_headers_get ''X-Signature-Timestamp''];
            missing =
              (c1, Responded \<lparr>status = 401, headers = [], body = ''Missing signature headers''\<rparr>)
        in
        case headers_get request ''X-Signature-Ed25519'' of
          None \<Rightarrow> missing
        | Some signature \<Rightarrow>
       (case headers_get request ''X-Signature-Timestamp'' of
          None \<Rightarrow> missing
        | Some timestamp \<Rightarrow>
          if signature = [] \<or> timestamp = []
          then missing
          else
           (let body = request_text request;
                isValidRequest = verifyKey rt body signature timestamp (DISCORD_PUBLIC_KEY env);
                c2 = c1 @ [Call_text, Call_verifyKey];
                c3 = c2 @ [Call_JSON_parse]
            in
            if \<not> isValidRequest
            then (c2, Responded \<lparr>status = 401, headers = [], body = ''Invalid signature''\<rparr>)
            else
             (case JSON_parse rt body of
                None \<Rightarrow> (c3, Threw SyntaxError)
              | Some interaction \<Rightarrow>
             (case Get (Some interaction) ''type'' of
                Inl e \<Rightarrow> (c3, Threw e)
              | Inr type \<Rightarrow>
                if type = Some (JNum (Finite 1))
                then (c3, Responded (jsonResponse rt (JObj [(''type'', JNum (Finite 1))])))
                else if type = Some (JNum (Finite 2))
                then
                 (case Get (Some interaction) ''data'' of
                    Inl e \<Rightarrow> (c3, Threw e)
                  | Inr data \<Rightarrow>
                 (case Get data ''name'' of
                    Inl e \<Rightarrow> (c3, Threw e)
                  | Inr commandName \<Rightarrow>
                 (case ToString rt commandName of
                    Inl e \<Rightarrow> (c3, Threw e)
                  | Inr key \<Rightarrow>
                 (case COMMAND_HANDLERS_get table key of
                    Some (Function handler) \<Rightarrow>
                      (c3 @ [Call_handler key], handler rt interaction env)
                  | Some Not_callable \<Rightarrow> (c3, Threw TypeError)
                  | None \<Rightarrow>
                      (c3, Responded (jsonResponse rt (JObj
                         [(''type'', JNum (Finite 4)),
                          (''data'', JObj
                             [(''content'', JStr (''Unknown command: '' @ key)),
                              (''flags'', JNum (Finite 64))])])))))))
                else
                  (c3, Responded (jsonResponse rt (JObj
                     [(''type'', JNum (Finite 4)),
                      (''data'', JObj
                         [(''content'', JStr ''Unsupported interaction type''),
                          (''flags'', JNum (Finite 64))])]))))))))),
     table)"

text \<open>A call of \<open>fetch\<close> on the module as loaded: what it did and how it ended.\<close>

definition fetch :: "runtime \<Rightarrow> request \<Rightarrow> env \<Rightarrow> call list \<times> outcome" where
  "fetch rt request env = fst (fetch_on COMMAND_HANDLERS rt request env)"


section \<open>Vocabulary of the properties\<close>

text \<open>
  A request is authenticated when \<open>fetch\<close> gets past its three rejections: the method
  is POST, both signature headers are present and not empty, and \<open>verifyKey\<close> accepts
  the body under them.
\<close>

definition authenticated :: "runtime \<Rightarrow> request \<Rightarrow> env \<Rightarrow> bool" where
  "authenticated rt request env =
     (request_method request = ''POST'' \<and>
      (case headers_get request ''X-Signature-Ed25519'' of
         None \<Rightarrow> False
       | Some signature \<Rightarrow>
      (case headers_get request ''X-Signature-Timestamp'' of
         None \<Rightarrow> False
       | Some timestamp \<Rightarrow>
           signature \<noteq> [] \<and> timestamp \<noteq> [] \<and>
           verifyKey rt (request_text request) signature timestamp (DISCORD_PUBLIC_KEY env))))"

text \<open>The calls of a run that reaches \<open>JSON.parse\<close>.\<close>

definition calls_to_parse :: "call list" where
  "calls_to_parse =
     [Call_headers_get ''X-Signature-Ed25519'',
      Call_headers_get ''X-Signature-Timestamp'',
      Call_text, Call_verifyKey, Call_JSON_parse]"

text \<open>The headers \<open>jsonResponse\<close> sets.\<close>

definition json_headers :: "(string \<times> string) list" where
  "json_headers = [(''Content-Type'', ''application/json'')]"

text \<open>
  An entry of an options list that the search of the login handler passes over: it is
  not \<open>null\<close> (the arrow function can read its \<open>name\<close>) and its \<open>name\<close> is
  not \<open>auth_key\<close>. An entry that is no object has no \<open>name\<close>.
\<close>

fun passed_over :: "json \<Rightarrow> bool" where
  "passed_over JNull = False"
| "passed_over (JObj kvs) = (map_of kvs ''name'' \<noteq> Some (JStr ''auth_key''))"
| "passed_over v = True"

subsection \<open>Sample requests\<close>

text \<open>
  A runtime for the concrete runs below. Its \<open>verifyKey\<close> accepts the one signature
  \<open>c0ffee\<close> under the key \<open>cafe\<close>; its \<open>JSON.parse\<close> is the table of the bodies
  that the runs use, with the values \<open>JSON.parse\<close> gives them, the body \<open>{\<close> among
  them, which is no JSON text; no run formats a number that is not an integer.
\<close>

definition sample_parse :: "string \<Rightarrow> json option" where
  \<open>sample_parse s =
     (if s = ''{"type":1}'' then Some (JObj [(''type'', JNum (Finite 1))])
      else if s = ''{"type":3}'' then Some (JObj [(''type'', JNum (Finite 3))])
      else if s = ''{"type":2,"data":{"name":"login","options":[]}}''
        then Some (JObj [(''type'', JNum (Finite 2)),
                         (''data'', JObj [(''name'', JStr ''login''), (''options'', JArr [])])])
      else if s = ''{"type":2,"data":{"name":"login","options":[{"name":"auth_key","value":"abc123"}]}}''
        then Some (JObj [(''type'', JNum (Finite 2)),
                         (''data'', JObj [(''name'', JStr ''login''),
                            (''options'', JArr [JObj [(''name'', JStr ''auth_key''),
                                                      (''value'', JStr ''abc123'')]])])])
      else if s = ''{"type":2,"data":{"name":"login","options":[{"name":"auth_key","value":""}]}}''
        then Some (JObj [(''type'', JNum (Finite 2)),
                         (''data'', JObj [(''name'', JStr ''login''),
                            (''options'', JArr [JObj [(''name'', JStr ''auth_key''),
                                                      (''value'', JStr [])]])])])
      else if s = ''{"type":2,"data":{"name":"login","options":[{"name":"auth_key","value":""},{"name":"auth_key","value":"abc123"}]}}''
        then Some (JObj [(''type'', JNum (Finite 2)),
                         (''data'', JObj [(''name'', JStr ''login''),
                            (''options'', JArr [JObj [(''name'', JStr ''auth_key''),
                                                      (''value'', JStr [])],
                                                JObj [(''name'', JStr ''auth_key''),
                                                      (''value'', JStr ''abc123'')]])])])
      else if s = ''{"type":2,"data":{"name":"login","options":[null,{"name":"auth_key","value":"abc123"}]}}''
        then Some (JObj [(''type'', JNum (Finite 2)),
                         (''data'', JObj [(''name'', JStr ''login''),
                            (''options'', JArr [JNull,
                                                JObj [(''name'', JStr ''auth_key''),
                                                      (''value'', JStr ''abc123'')]])])])
      else if s = ''{"type":2,"data":{"name":"login","options":[null]}}''
        then Some (JObj [(''type'', JNum (Finite 2)),
                         (''data'', JObj [(''name'', JStr ''login''), (''options'', JArr [JNull])])])
      else if s = ''{"type":2,"data":{"name":"ping"}}''
        then Some (JObj [(''type'', JNum (Finite 2)), (''data'', JObj [(''name'', JStr ''ping'')])])
      else if s = ''{"type":2,"data":{"name":"Ping"}}''
        then Some (JObj [(''type'', JNum (Finite 2)), (''data'', JObj [(''name'', JStr ''Ping'')])])
      else if s = ''{"type":2,"data":{"name":"constructor"}}''
        then Some (JObj [(''type'', JNum (Finite 2)),
                         (''data'', JObj [(''name'', JStr ''constructor'')])])
      else None)\<close>

definition sample_runtime :: runtime where
  "sample_runtime =
     \<lparr>verifyKey = (\<lambda>body signature timestamp key. signature = ''c0ffee'' \<and> key = Some ''cafe''),
      JSON_parse = sample_parse,
      Number_format = (\<lambda>n. [])\<rparr>"

definition sample_env :: env where
  "sample_env = \<lparr>DISCORD_PUBLIC_KEY = Some ''cafe''\<rparr>"

text \<open>
  A request with the given method, signature header, user agent and body. The user
  agent is a header the worker does not read.
\<close>

definition sample_request :: "string \<Rightarrow> string option \<Rightarrow> string \<Rightarrow> string \<Rightarrow> request" where
  "sample_request m signature agent b =
     \<lparr>request_method = m,
      headers_get = (\<lambda>name.
         if name = ''X-Signature-Ed25519'' then signature
         else if name = ''X-Signature-Timestamp'' then Some ''1700000000''
         else if name = ''User-Agent'' then Some agent
         else None),
      request_text = b\<rparr>"

definition signed :: "string \<Rightarrow> request" where
  "signed b = sample_request ''POST'' (Some ''c0ffee'') ''Discord-Interactions/1.0'' b"

section \<open>Auxiliary facts\<close>

subsection \<open>The bodies of the literal responses\<close>

lemmas stringify_simps = QuoteJSONString_def quote_char_def Number_toString_def decimal.simps
  jsonResponse_def json_headers_def

lemma jsonResponse_ack:
  \<open>jsonResponse rt (JObj [(''type'', JNum (Finite 1))]) =
     \<lparr>status = 200, headers = json_headers, body = ''{"type":1}''\<rparr>\<close>
  by (simp add: stringify_simps)

lemma jsonResponse_auth_required:
  \<open>jsonResponse rt (JObj
     [(''type'', JNum (Finite 4)),
      (''data'', JObj [(''content'', JStr ''Auth key is required''), (''flags'', JNum (Finite 64))])]) =
   \<lparr>status = 200, headers = json_headers,
    body = ''{"type":4,"data":{"content":"Auth key is required","flags":64}}''\<rparr>\<close>
  by (simp add: stringify_simps)

lemma jsonResponse_unsupported:
  \<open>jsonResponse rt (JObj
     [(''type'', JNum (Finite 4)),
      (''data'', JObj [(''content'', JStr ''Unsupported interaction type''), (''flags'', JNum (Finite 64))])]) =
   \<lparr>status = 200, headers = json_headers,
    body = ''{"type":4,"data":{"content":"Unsupported interaction type","flags":64}}''\<rparr>\<close>
  by (simp add: stringify_simps)

text \<open>The name is escaped where it stands in the body of an "unknown command" reply.\<close>

lemma jsonResponse_unknown:
  \<open>jsonResponse rt (JObj
     [(''type'', JNum (Finite 4)),
      (''data'', JObj [(''content'', JStr (''Unknown command: '' @ key)), (''flags'', JNum (Finite 64))])]) =
   \<lparr>status = 200, headers = json_headers,
    body = ''{"type":4,"data":{"content":"Unknown command: '' @ concat (map quote_char key) @ ''","flags":64}}''\<rparr>\<close>
  by (simp add: stringify_simps)

lemma featureComingSoonResponse_body:
  \<open>featureComingSoonResponse rt commandName =
   \<lparr>status = 200, headers = json_headers,
    body = ''{"type":4,"data":{"embeds":[{"title":"Feature in Development","description":"The `''
      @ concat (map quote_char commandName)
      @ ''` command is available in the traditional bot deployment. Full Cloudflare Workers implementation coming soon!","color":12500734,"footer":{"text":"Use the traditional bot (bot.py) for full functionality"}}],"flags":64}}''\<rparr>\<close>
  by (simp add: featureComingSoonResponse_def stringify_simps)

lemma handlePingCommand_body:
  \<open>handlePingCommand rt interaction env =
   Responded \<lparr>status = 200, headers = json_headers,
    body = ''{"type":4,"data":{"embeds":[{"title":"'' @ [CHR 0xF0, CHR 0x9F, CHR 0x8F, CHR 0x93]
      @ '' Pong!","description":"Bot is running on Cloudflare Workers!","color":12500734}]}}''\<rparr>\<close>
  by (simp add: handlePingCommand_def stringify_simps)

subsection \<open>\<open>fetch\<close> on an authenticated request\<close>

lemma authenticatedE:
  assumes "authenticated rt request env"
  obtains signature timestamp where
    "request_method request = ''POST''"
    "headers_get request ''X-Signature-Ed25519'' = Some signature"
    "headers_get request ''X-Signature-Timestamp'' = Some timestamp"
    "signature \<noteq> []" "timestamp \<noteq> []"
    "verifyKey rt (request_text request) signature timestamp (DISCORD_PUBLIC_KEY env)"
  using assms by (auto simp: authenticated_def split: option.splits)

lemma fetch_unparseable:
  assumes "authenticated rt request env"
    and "JSON_parse rt (request_text request) = None"
  shows "fetch rt request env = (calls_to_parse, Threw SyntaxError)"
  using assms(1)
proof (rule authenticatedE)
  fix signature timestamp
  assume "request_method request = ''POST''"
    "headers_get request ''X-Signature-Ed25519'' = Some signature"
    "headers_get request ''X-Signature-Timestamp'' = Some timestamp"
    "signature \<noteq> []" "timestamp \<noteq> []"
    "verifyKey rt (request_text request) signature timestamp (DISCORD_PUBLIC_KEY env)"
  then show ?thesis
    using assms(2) by (simp add: fetch_def fetch_on_def Let_def calls_to_parse_def)
qed

lemma fetch_type_1:
  assumes "authenticated rt request env"
    and "JSON_parse rt (request_text request) = Some (JObj kvs)"
    and "map_of kvs ''type'' = Some (JNum (Finite 1))"
  shows "fetch rt request env =
           (calls_to_parse, Responded (jsonResponse rt (JObj [(''type'', JNum (Finite 1))])))"
  using assms(1)
proof (rule authenticatedE)
  fix signature timestamp
  assume "request_method request = ''POST''"
    "headers_get request ''X-Signature-Ed25519'' = Some signature"
    "headers_get request ''X-Signature-Timestamp'' = Some timestamp"
    "signature \<noteq> []" "timestamp \<noteq> []"
    "verifyKey rt (request_text request) signature timestamp (DISCORD_PUBLIC_KEY env)"
  then show ?thesis
    using assms(2,3) by (simp add: fetch_def fetch_on_def Let_def calls_to_parse_def)
qed

lemma fetch_type_other:
  assumes "authenticated rt request env"
    and "JSON_parse rt (request_text request) = Some interaction"
    and "Get (Some interaction) ''type'' = Inr type"
    and "type \<noteq> Some (JNum (Finite 1))" "type \<noteq> Some (JNum (Finite 2))"
  shows "fetch rt request env =
           (calls_to_parse, Responded (jsonResponse rt (JObj
                     [(''type'', JNum (Finite 4)),
                      (''data'', JObj
                         [(''content'', JStr ''Unsupported interaction type''),
                          (''flags'', JNum (Finite 64))])])))"
  using assms(1)
proof (rule authenticatedE)
  fix signature timestamp
  assume "request_method request = ''POST''"
    "headers_get request ''X-Signature-Ed25519'' = Some signature"
    "headers_get request ''X-Signature-Timestamp'' = Some timestamp"
    "signature \<noteq> []" "timestamp \<noteq> []"
    "verifyKey rt (request_text request) signature timestamp (DISCORD_PUBLIC_KEY env)"
  then show ?thesis
    using assms(2-) by (simp add: fetch_def fetch_on_def Let_def calls_to_parse_def)
qed

lemma fetch_command:
  assumes "authenticated rt request env"
    and "JSON_parse rt (request_text request) = Some (JObj kvs)"
    and "map_of kvs ''type'' = Some (JNum (Finite 2))"
    and "map_of kvs ''data'' = Some (JObj d)"
    and "map_of d ''name'' = Some (JStr key)"
  shows "fetch rt request env =
           (case COMMAND_HANDLERS_get COMMAND_HANDLERS key of
                    Some (Function handler) \<Rightarrow>
                      (calls_to_parse @ [Call_handler key], handler rt (JObj kvs) env)
                  | Some Not_callable \<Rightarrow> (calls_to_parse, Threw TypeError)
                  | None \<Rightarrow>
                      (calls_to_parse, Responded (jsonResponse rt (JObj
                         [(''type'', JNum (Finite 4)),
                          (''data'', JObj
                             [(''content'', JStr (''Unknown command: '' @ key)),
                              (''flags'', JNum (Finite 64))])]))))"
  using assms(1)
proof (rule authenticatedE)
  fix signature timestamp
  assume "request_method request = ''POST''"
    "headers_get request ''X-Signature-Ed25519'' = Some signature"
    "headers_get request ''X-Signature-Timestamp'' = Some timestamp"
    "signature \<noteq> []" "timestamp \<noteq> []"
    "verifyKey rt (request_text request) signature timestamp (DISCORD_PUBLIC_KEY env)"
  then show ?thesis
    using assms(2-)
    by (simp add: fetch_def fetch_on_def Let_def calls_to_parse_def
        split: option.splits property.splits)
qed

subsection \<open>The handler table\<close>

lemma map_of_COMMAND_HANDLERS:
  assumes "map_of COMMAND_HANDLERS name = Some handler"
  shows "(name = ''ping'' \<and> handler = handlePingCommand)
       \<or> (name = ''login'' \<and> handler = handleLoginCommand)
       \<or> (name = ''start-shift'' \<and> handler = handleStartShiftCommand)
       \<or> (name = ''end-shift'' \<and> handler = handleEndShiftCommand)
       \<or> (name = ''shift-status'' \<and> handler = handleShiftStatusCommand)"
  using assms by (auto simp: COMMAND_HANDLERS_def split: if_splits)

lemma COMMAND_HANDLERS_get_login:
  "COMMAND_HANDLERS_get COMMAND_HANDLERS ''login'' = Some (Function handleLoginCommand)"
  by (simp add: COMMAND_HANDLERS_get_def COMMAND_HANDLERS_def)

lemma COMMAND_HANDLERS_get_own:
  "map_of COMMAND_HANDLERS key = Some handler \<Longrightarrow>
     COMMAND_HANDLERS_get COMMAND_HANDLERS key = Some (Function handler)"
  by (simp add: COMMAND_HANDLERS_get_def)

text \<open>
  A name that is neither one of the five keys nor a property of \<open>Object.prototype\<close>
  gets the "unknown command" reply, and nothing is called.
\<close>

lemma fetch_unknown_command:
  assumes "authenticated rt request env"
    and "JSON_parse rt (request_text request) = Some (JObj kvs)"
    and "map_of kvs ''type'' = Some (JNum (Finite 2))"
    and "map_of kvs ''data'' = Some (JObj d)"
    and "map_of d ''name'' = Some (JStr key)"
    and "key \<notin> fst ` set COMMAND_HANDLERS" and "key \<notin> fst ` set Object_prototype"
  shows "fetch rt request env =
     (calls_to_parse,
      Responded (jsonResponse rt (JObj
         [(''type'', JNum (Finite 4)),
          (''data'', JObj
             [(''content'', JStr (''Unknown command: '' @ key)),
              (''flags'', JNum (Finite 64))])])))"
proof -
  have "map_of COMMAND_HANDLERS key = None" and "map_of Object_prototype key = None"
    using assms(6,7) by (simp_all add: map_of_eq_None_iff)
  then have "COMMAND_HANDLERS_get COMMAND_HANDLERS key = None"
    by (simp add: COMMAND_HANDLERS_get_def)
  then show ?thesis
    by (simp add: fetch_command[OF assms(1-5)])
qed

subsection \<open>The search for the \<open>auth_key\<close> option\<close>

lemma is_auth_key_False_iff: "is_auth_key p = Inr False \<longleftrightarrow> passed_over p"
  by (cases p) (simp_all add: is_auth_key_def)

lemma is_auth_key_True_iff:
  "is_auth_key p = Inr True \<longleftrightarrow> (\<exists>opt. p = JObj opt \<and> map_of opt ''name'' = Some (JStr ''auth_key''))"
  by (cases p) (simp_all add: is_auth_key_def)

lemma falsy_iff:
  "\<not> ToBoolean (Some v) \<longleftrightarrow> v \<in> {JStr [], JNum (Finite 0), JBool False, JNull}"
  by (cases v) auto

lemma Array_find_first_auth_key:
  assumes "\<forall>p \<in> set pre. passed_over p"
    and "map_of opt ''name'' = Some (JStr ''auth_key'')"
  shows "Array_find is_auth_key (pre @ JObj opt # post) = Inr (Some (JObj opt))"
  using assms(1)
proof (induction pre)
  case Nil
  show ?case using assms(2) by (simp add: is_auth_key_def)
next
  case (Cons p pre)
  then have "is_auth_key p = Inr False"
    by (simp add: is_auth_key_False_iff)
  with Cons show ?case by simp
qed

lemma Array_find_no_auth_key:
  "\<forall>p \<in> set opts. passed_over p \<Longrightarrow> Array_find is_auth_key opts = Inr None"
proof (induction opts)
  case Nil
  show ?case by simp
next
  case (Cons p opts)
  then have "is_auth_key p = Inr False"
    by (simp add: is_auth_key_False_iff)
  with Cons show ?case by simp
qed

text \<open>What the search has found is the first entry named \<open>auth_key\<close>.\<close>

lemma Array_find_SomeD:
  assumes "Array_find is_auth_key opts = Inr (Some found)"
  shows "\<exists>pre opt post. opts = pre @ JObj opt # post \<and> found = JObj opt \<and>
           (\<forall>p \<in> set pre. passed_over p) \<and> map_of opt ''name'' = Some (JStr ''auth_key'')"
  using assms
proof (induction opts)
  case Nil
  then show ?case by simp
next
  case (Cons x opts)
  show ?case
  proof (cases "is_auth_key x")
    case (Inl e)
    with Cons.prems show ?thesis by simp
  next
    case (Inr b)
    show ?thesis
    proof (cases b)
      case True
      with Inr Cons.prems have "found = x" by simp
      moreover from True Inr obtain opt where
        "x = JObj opt" "map_of opt ''name'' = Some (JStr ''auth_key'')"
        by (auto simp: is_auth_key_True_iff)
      ultimately have "x # opts = [] @ JObj opt # opts \<and> found = JObj opt \<and>
           (\<forall>p \<in> set []. passed_over p) \<and> map_of opt ''name'' = Some (JStr ''auth_key'')"
        by simp
      then show ?thesis by blast
    next
      case False
      with Inr Cons.prems have "Array_find is_auth_key opts = Inr (Some found)" by simp
      from Cons.IH[OF this] obtain pre opt post where
        "opts = pre @ JObj opt # post" "found = JObj opt"
        "\<forall>p \<in> set pre. passed_over p" "map_of opt ''name'' = Some (JStr ''auth_key'')"
        by blast
      moreover from False Inr have "passed_over x"
        by (simp add: is_auth_key_False_iff)
      ultimately have "x # opts = (x # pre) @ JObj opt # post \<and> found = JObj opt \<and>
           (\<forall>p \<in> set (x # pre). passed_over p) \<and> map_of opt ''name'' = Some (JStr ''auth_key'')"
        by simp
      then show ?thesis by blast
    qed
  qed
qed

lemma authKey_expression_found:
  assumes "map_of kvs ''data'' = Some (JObj d)"
    and "map_of d ''options'' = Some (JArr (pre @ JObj opt # post))"
    and "\<forall>p \<in> set pre. passed_over p"
    and "map_of opt ''name'' = Some (JStr ''auth_key'')"
  shows "authKey_expression (JObj kvs) = Inr (map_of opt ''value'')"
  using assms(1,2)
  by (simp add: authKey_expression_def Array_find_first_auth_key[OF assms(3,4)])

lemma authKey_expression_not_found:
  assumes "map_of kvs ''data'' = Some (JObj d)"
    and "map_of d ''options'' = Some (JArr opts)"
    and "\<forall>p \<in> set opts. passed_over p"
  shows "authKey_expression (JObj kvs) = Inr None"
  using assms(1,2)
  by (simp add: authKey_expression_def Array_find_no_auth_key[OF assms(3)])

lemma authKey_expression_nullish:
  assumes "map_of kvs ''data'' = Some (JObj d)"
    and "map_of d ''options'' \<in> {None, Some JNull}"
  shows "authKey_expression (JObj kvs) = Inr None"
  using assms by (auto simp: authKey_expression_def)

text \<open>A truthy key comes from the first entry named \<open>auth_key\<close>, and from nowhere else.\<close>

lemma authKey_expression_truthyD:
  assumes "authKey_expression (JObj kvs) = Inr a" and "ToBoolean a"
    and "map_of kvs ''data'' = Some (JObj d)"
  shows "\<exists>pre opt post v.
           map_of d ''options'' = Some (JArr (pre @ JObj opt # post)) \<and>
           (\<forall>p \<in> set pre. passed_over p) \<and>
           map_of opt ''name'' = Some (JStr ''auth_key'') \<and>
           map_of opt ''value'' = Some v \<and>
           v \<notin> {JStr [], JNum (Finite 0), JBool False, JNull}"
proof -
  from assms obtain opts found where
    options: "map_of d ''options'' = Some (JArr opts)"
    and found: "Array_find is_auth_key opts = Inr (Some found)"
    and a: "Get (Some found) ''value'' = Inr a"
    by (auto simp: authKey_expression_def split: option.splits json.splits sum.splits)
  from Array_find_SomeD[OF found] obtain pre opt post where
    opts: "opts = pre @ JObj opt # post" "found = JObj opt"
    "\<forall>p \<in> set pre. passed_over p" "map_of opt ''name'' = Some (JStr ''auth_key'')"
    by blast
  from a opts(2) have "a = map_of opt ''value''" by simp
  with assms(2) obtain v where v: "map_of opt ''value'' = Some v" "ToBoolean (Some v)"
    by (cases "map_of opt ''value''") auto
  from v(2) have "v \<notin> {JStr [], JNum (Finite 0), JBool False, JNull}"
    using falsy_iff[of v] by blast
  with options opts v(1) show ?thesis by blast
qed

text \<open>Whatever the interaction, the login handler ends in one of three ways.\<close>

lemma Get_error: "Get v p = Inl e \<Longrightarrow> e = TypeError"
  by (cases "(v, p)" rule: Get.cases) simp_all

lemma Array_find_error: "Array_find is_auth_key opts = Inl e \<Longrightarrow> e = TypeError"
  by (induction opts) (auto simp: is_auth_key_def split: sum.splits if_splits dest: Get_error)

lemma authKey_expression_error: "authKey_expression interaction = Inl e \<Longrightarrow> e = TypeError"
  by (auto simp: authKey_expression_def split: sum.splits option.splits json.splits
      dest: Get_error Array_find_error)

lemma handleLoginCommand_results:
  "handleLoginCommand rt interaction env \<in>
     {Responded (jsonResponse rt (JObj
                 [(''type'', JNum (Finite 4)),
                  (''data'', JObj
                     [(''content'', JStr ''Auth key is required''),
                      (''flags'', JNum (Finite 64))])])),
      Responded (featureComingSoonResponse rt ''login''),
      Threw TypeError}"
  by (auto simp: handleLoginCommand_def split: sum.splits dest: authKey_expression_error)

subsection \<open>The sample runtime\<close>

lemma authenticated_signed: "authenticated sample_runtime (signed b) sample_env"
  by (simp add: authenticated_def signed_def sample_request_def sample_runtime_def sample_env_def)

lemma sample_runs:
  "JSON_parse sample_runtime (request_text (signed b)) = sample_parse b"
  by (simp add: sample_runtime_def signed_def sample_request_def)

section \<open>The claims\<close>

subsection \<open>C1: a body that does not parse\<close>

text \<open>
  C1, at a concrete request. The signed request with the body \<open>{\<close> is authenticated
  and its body does not parse; \<open>fetch\<close> builds no response, neither the "unsupported
  interaction type" reply nor another: the SyntaxError of \<open>JSON.parse\<close> is its outcome.
\<close>

theorem unparseable_body_counterexample:
  \<open>authenticated sample_runtime (signed ''{'') sample_env
   \<and> JSON_parse sample_runtime (request_text (signed ''{'')) = None
   \<and> fetch sample_runtime (signed ''{'') sample_env = (calls_to_parse, Threw SyntaxError)\<close>
  by (simp add: authenticated_signed sample_runs sample_parse_def fetch_unparseable)

text \<open>
  C1, as the worker has it. For every authenticated request whose body does not parse,
  \<open>fetch\<close> throws the SyntaxError of \<open>JSON.parse\<close> after the signature check and
  before any handler is looked up; no response is built. The ephemeral "Unsupported
  interaction type" reply, with status 200, is what an authenticated request gets
  whose body parses to a value other than \<open>null\<close> whose \<open>type\<close> is neither 1 nor 2.
\<close>

theorem unparseable_body_throws:
  assumes "authenticated rt request env"
  shows \<open>(JSON_parse rt (request_text request) = None \<longrightarrow>
            fetch rt request env = (calls_to_parse, Threw SyntaxError))
       \<and> (JSON_parse rt (request_text request) = Some interaction \<and>
          Get (Some interaction) ''type'' = Inr type \<and>
          type \<noteq> Some (JNum (Finite 1)) \<and> type \<noteq> Some (JNum (Finite 2)) \<longrightarrow>
            fetch rt request env =
              (calls_to_parse,
               Responded \<lparr>status = 200, headers = json_headers,
                 body = ''{"type":4,"data":{"content":"Unsupported interaction type","flags":64}}''\<rparr>))\<close>
  using assms
  by (simp add: fetch_unparseable fetch_type_other jsonResponse_unsupported)

text \<open>Both halves on the sample runtime: the body \<open>{\<close> and the body \<open>{"type":3}\<close>.\<close>

theorem unparseable_body_throws_witness:
  \<open>fetch sample_runtime (signed ''{'') sample_env = (calls_to_parse, Threw SyntaxError)
   \<and> fetch sample_runtime (signed ''{"type":3}'') sample_env =
       (calls_to_parse,
        Responded \<lparr>status = 200, headers = json_headers,
          body = ''{"type":4,"data":{"content":"Unsupported interaction type","flags":64}}''\<rparr>)\<close>
  using
    unparseable_body_throws [of sample_runtime \<open>signed ''{''\<close> sample_env]
    unparseable_body_throws [of sample_runtime \<open>signed ''{"type":3}''\<close> sample_env
      "JObj [(''type'', JNum (Finite 3))]" "Some (JNum (Finite 3))"]
  by (simp add: authenticated_signed sample_runs sample_parse_def)

subsection \<open>C2: a handler that faults\<close>

text \<open>
  C2, at a concrete request. The login handler is registered; on the interaction
  whose options list is \<open>[null]\<close> it throws a TypeError (the arrow function reads
  \<open>opt.name\<close> of \<open>null\<close>); \<open>fetch\<close> on the signed request with that body has
  called the handler and ends with the same TypeError, not with a response.
\<close>

theorem handler_fault_counterexample:
  \<open>map_of COMMAND_HANDLERS ''login'' = Some handleLoginCommand
   \<and> handleLoginCommand sample_runtime
       (JObj [(''type'', JNum (Finite 2)),
              (''data'', JObj [(''name'', JStr ''login''), (''options'', JArr [JNull])])])
       sample_env = Threw TypeError
   \<and> fetch sample_runtime (signed ''{"type":2,"data":{"name":"login","options":[null]}}'') sample_env =
       (calls_to_parse @ [Call_handler ''login''], Threw TypeError)\<close>
proof -
  have "handleLoginCommand sample_runtime
       (JObj [(''type'', JNum (Finite 2)),
              (''data'', JObj [(''name'', JStr ''login''), (''options'', JArr [JNull])])])
       sample_env = Threw TypeError"
    by (simp add: handleLoginCommand_def authKey_expression_def is_auth_key_def)
  moreover have \<open>fetch sample_runtime (signed ''{"type":2,"data":{"name":"login","options":[null]}}'') sample_env =
       (calls_to_parse @ [Call_handler ''login''],
        handleLoginCommand sample_runtime
       (JObj [(''type'', JNum (Finite 2)),
              (''data'', JObj [(''name'', JStr ''login''), (''options'', JArr [JNull])])])
       sample_env)\<close>
    using fetch_command [OF authenticated_signed, of _
        "[(''type'', JNum (Finite 2)),
          (''data'', JObj [(''name'', JStr ''login''), (''options'', JArr [JNull])])]"
        "[(''name'', JStr ''login''), (''options'', JArr [JNull])]" "''login''"]
    by (simp add: sample_runs sample_parse_def COMMAND_HANDLERS_get_login)
  ultimately show ?thesis
    by (simp add: COMMAND_HANDLERS_def)
qed

text \<open>
  C2, as the worker has it. For every authenticated request of type 2 whose command
  name is one of the five keys of the table: when the handler found under it throws,
  \<open>fetch\<close> has called that handler and throws the same error; it catches nothing and
  builds no failure response.
\<close>

theorem handler_fault_is_not_caught:
  assumes "authenticated rt request env"
    and "JSON_parse rt (request_text request) = Some (JObj kvs)"
    and "map_of kvs ''type'' = Some (JNum (Finite 2))"
    and "map_of kvs ''data'' = Some (JObj d)"
    and "map_of d ''name'' = Some (JStr key)"
    and "map_of COMMAND_HANDLERS key = Some handler"
    and "handler rt (JObj kvs) env = Threw e"
  shows "fetch rt request env = (calls_to_parse @ [Call_handler key], Threw e)"
  using assms(7)
  by (simp add: fetch_command[OF assms(1-5)] COMMAND_HANDLERS_get_own[OF assms(6)])

text \<open>The login command with the options list \<open>[null]\<close>, on the sample runtime.\<close>

theorem handler_fault_is_not_caught_witness:
  \<open>fetch sample_runtime (signed ''{"type":2,"data":{"name":"login","options":[null]}}'') sample_env =
       (calls_to_parse @ [Call_handler ''login''], Threw TypeError)\<close>
  using handler_fault_is_not_caught
    [of sample_runtime \<open>signed ''{"type":2,"data":{"name":"login","options":[null]}}''\<close> sample_env
        "[(''type'', JNum (Finite 2)),
          (''data'', JObj [(''name'', JStr ''login''), (''options'', JArr [JNull])])]"
        "[(''name'', JStr ''login''), (''options'', JArr [JNull])]"
        "''login''" handleLoginCommand TypeError]
  by (simp add: authenticated_signed sample_runs sample_parse_def COMMAND_HANDLERS_def
      handleLoginCommand_def authKey_expression_def is_auth_key_def)

subsection \<open>C3: names outside the table\<close>

text \<open>
  C3, at a concrete request. The name \<open>constructor\<close> is none of the five keys of the
  table, yet the lookup finds \<open>Object.prototype.constructor\<close> and \<open>fetch\<close> calls it
  as the handler: the outcome is the value that call returns, which is no response,
  where an ephemeral "Unknown command: constructor" was due and no call.
\<close>

theorem inherited_property_is_called_as_handler:
  \<open>map_of COMMAND_HANDLERS ''constructor'' = None
   \<and> fetch sample_runtime (signed ''{"type":2,"data":{"name":"constructor"}}'') sample_env =
       (calls_to_parse @ [Call_handler ''constructor''], Not_a_Response)\<close>
proof -
  have \<open>fetch sample_runtime (signed ''{"type":2,"data":{"name":"constructor"}}'') sample_env =
       (calls_to_parse @ [Call_handler ''constructor''], Not_a_Response)\<close>
    using fetch_command [OF authenticated_signed, of _
        "[(''type'', JNum (Finite 2)), (''data'', JObj [(''name'', JStr ''constructor'')])]"
        "[(''name'', JStr ''constructor'')]" "''constructor''"]
    by (simp add: sample_runs sample_parse_def COMMAND_HANDLERS_get_def COMMAND_HANDLERS_def
          Object_prototype_def)
  then show ?thesis
    by (simp add: COMMAND_HANDLERS_def)
qed

subsection \<open>C4: rejections\<close>

text \<open>
  C4. A request whose method is not POST is answered with status 405 and \<open>fetch\<close> has
  made no call: it has read no header and no body. A POST request with a signature
  header or a timestamp header missing or empty is answered with status 401 after the
  two header reads. A POST request whose signature \<open>verifyKey\<close> rejects is answered
  with status 401 after the body was read and checked. In none of the three runs is
  \<open>JSON.parse\<close> or a handler called.
\<close>

theorem rejected_before_processing:
  \<open>(request_method request \<noteq> ''POST'' \<longrightarrow>
      fetch rt request env =
        ([], Responded \<lparr>status = 405, headers = [], body = ''Method not allowed''\<rparr>))
   \<and> (request_method request = ''POST'' \<and>
       (headers_get request ''X-Signature-Ed25519'' \<in> {None, Some []} \<or>
        headers_get request ''X-Signature-Timestamp'' \<in> {None, Some []}) \<longrightarrow>
      fetch rt request env =
        ([Call_headers_get ''X-Signature-Ed25519'', Call_headers_get ''X-Signature-Timestamp''],
         Responded \<lparr>status = 401, headers = [], body = ''Missing signature headers''\<rparr>))
   \<and> (request_method request = ''POST'' \<and>
       headers_get request ''X-Signature-Ed25519'' = Some signature \<and> signature \<noteq> [] \<and>
       headers_get request ''X-Signature-Timestamp'' = Some timestamp \<and> timestamp \<noteq> [] \<and>
       \<not> verifyKey rt (request_text request) signature timestamp (DISCORD_PUBLIC_KEY env) \<longrightarrow>
      fetch rt request env =
        ([Call_headers_get ''X-Signature-Ed25519'', Call_headers_get ''X-Signature-Timestamp'',
          Call_text, Call_verifyKey],
         Responded \<lparr>status = 401, headers = [], body = ''Invalid signature''\<rparr>))\<close>
proof (intro conjI impI)
  assume "request_method request \<noteq> ''POST''"
  then show "fetch rt request env =
        ([], Responded \<lparr>status = 405, headers = [], body = ''Method not allowed''\<rparr>)"
    by (simp add: fetch_def fetch_on_def)
next
  assume "request_method request = ''POST'' \<and>
       (headers_get request ''X-Signature-Ed25519'' \<in> {None, Some []} \<or>
        headers_get request ''X-Signature-Timestamp'' \<in> {None, Some []})"
  then show "fetch rt request env =
        ([Call_headers_get ''X-Signature-Ed25519'', Call_headers_get ''X-Signature-Timestamp''],
         Responded \<lparr>status = 401, headers = [], body = ''Missing signature headers''\<rparr>)"
    by (auto simp: fetch_def fetch_on_def Let_def split: option.splits)
next
  assume "request_method request = ''POST'' \<and>
       headers_get request ''X-Signature-Ed25519'' = Some signature \<and> signature \<noteq> [] \<and>
       headers_get request ''X-Signature-Timestamp'' = Some timestamp \<and> timestamp \<noteq> [] \<and>
       \<not> verifyKey rt (request_text request) signature timestamp (DISCORD_PUBLIC_KEY env)"
  then show "fetch rt request env =
        ([Call_headers_get ''X-Signature-Ed25519'', Call_headers_get ''X-Signature-Timestamp'',
          Call_text, Call_verifyKey],
         Responded \<lparr>status = 401, headers = [], body = ''Invalid signature''\<rparr>)"
    by (simp add: fetch_def fetch_on_def Let_def)
qed

text \<open>A GET request, a POST request without signature and one with a wrong signature.\<close>

theorem rejected_before_processing_witness:
  \<open>fetch sample_runtime (sample_request ''GET'' (Some ''c0ffee'') ''curl/8.5.0'' ''{"type":1}'') sample_env =
     ([], Responded \<lparr>status = 405, headers = [], body = ''Method not allowed''\<rparr>)
   \<and> fetch sample_runtime (sample_request ''POST'' None ''curl/8.5.0'' ''{"type":1}'') sample_env =
     ([Call_headers_get ''X-Signature-Ed25519'', Call_headers_get ''X-Signature-Timestamp''],
      Responded \<lparr>status = 401, headers = [], body = ''Missing signature headers''\<rparr>)
   \<and> fetch sample_runtime (sample_request ''POST'' (Some ''0badc0de'') ''curl/8.5.0'' ''{"type":1}'') sample_env =
     ([Call_headers_get ''X-Signature-Ed25519'', Call_headers_get ''X-Signature-Timestamp'',
       Call_text, Call_verifyKey],
      Responded \<lparr>status = 401, headers = [], body = ''Invalid signature''\<rparr>)\<close>
  using
    rejected_before_processing
      [of \<open>sample_request ''GET'' (Some ''c0ffee'') ''curl/8.5.0'' ''{"type":1}''\<close>
          sample_runtime sample_env]
    rejected_before_processing
      [of \<open>sample_request ''POST'' None ''curl/8.5.0'' ''{"type":1}''\<close>
          sample_runtime sample_env]
    rejected_before_processing
      [of \<open>sample_request ''POST'' (Some ''0badc0de'') ''curl/8.5.0'' ''{"type":1}''\<close>
          sample_runtime sample_env "''0badc0de''" "''1700000000''"]
  by (simp add: sample_request_def sample_runtime_def)

subsection \<open>C5: the ping interaction\<close>

text \<open>
  C5. For every authenticated request whose body parses to an object with \<open>type\<close> 1,
  whatever else the object holds, the response has status 200 and the body
  \<open>{"type":1}\<close>, and no handler is called.
\<close>

theorem ping_interaction_is_acknowledged:
  assumes "authenticated rt request env"
    and "JSON_parse rt (request_text request) = Some (JObj kvs)"
    and "map_of kvs ''type'' = Some (JNum (Finite 1))"
  shows \<open>fetch rt request env =
    (calls_to_parse,
     Responded \<lparr>status = 200, headers = json_headers, body = ''{"type":1}''\<rparr>)\<close>
  by (simp add: fetch_type_1[OF assms] jsonResponse_ack)

text \<open>The signed body \<open>{"type":1}\<close> on the sample runtime.\<close>

theorem ping_interaction_is_acknowledged_witness:
  \<open>fetch sample_runtime (signed ''{"type":1}'') sample_env =
    (calls_to_parse,
     Responded \<lparr>status = 200, headers = json_headers, body = ''{"type":1}''\<rparr>)\<close>
  using ping_interaction_is_acknowledged
    [of sample_runtime \<open>signed ''{"type":1}''\<close> sample_env "[(''type'', JNum (Finite 1))]"]
  by (simp add: authenticated_signed sample_runs sample_parse_def)

subsection \<open>C6 and C7: the login command\<close>

text \<open>
  C6. An authenticated request whose body parses to an interaction of type 2 naming
  the command \<open>login\<close> with an empty options list is answered with status 200 and the
  body \<open>{"type":4,"data":{"content":"Auth key is required","flags":64}}\<close>; the
  one handler called is the login handler.
\<close>

theorem login_without_options_requires_auth_key:
  assumes "authenticated rt request env"
    and "JSON_parse rt (request_text request) = Some (JObj kvs)"
    and "map_of kvs ''type'' = Some (JNum (Finite 2))"
    and "map_of kvs ''data'' = Some (JObj d)"
    and "map_of d ''name'' = Some (JStr ''login'')"
    and "map_of d ''options'' = Some (JArr [])"
  shows \<open>fetch rt request env =
    (calls_to_parse @ [Call_handler ''login''],
     Responded \<lparr>status = 200, headers = json_headers,
       body = ''{"type":4,"data":{"content":"Auth key is required","flags":64}}''\<rparr>)\<close>
proof -
  have "authKey_expression (JObj kvs) = Inr None"
    using assms(4,6) by (rule authKey_expression_not_found) simp
  then show ?thesis
    by (simp add: fetch_command[OF assms(1-5)] COMMAND_HANDLERS_get_login
        handleLoginCommand_def jsonResponse_auth_required)
qed

text \<open>The scenario of the specification, run on the sample runtime.\<close>

theorem login_without_options_requires_auth_key_witness:
  \<open>fetch sample_runtime (signed ''{"type":2,"data":{"name":"login","options":[]}}'') sample_env =
    (calls_to_parse @ [Call_handler ''login''],
     Responded \<lparr>status = 200, headers = json_headers,
       body = ''{"type":4,"data":{"content":"Auth key is required","flags":64}}''\<rparr>)\<close>
  using login_without_options_requires_auth_key
    [of sample_runtime \<open>signed ''{"type":2,"data":{"name":"login","options":[]}}''\<close> sample_env
        "[(''type'', JNum (Finite 2)),
          (''data'', JObj [(''name'', JStr ''login''), (''options'', JArr [])])]"
        "[(''name'', JStr ''login''), (''options'', JArr [])]"]
  by (simp add: authenticated_signed sample_runs sample_parse_def)

text \<open>
  C7, at two concrete requests. Both name the command \<open>login\<close> and carry an options
  entry named \<open>auth_key\<close> with the value \<open>abc123\<close>. In the first an entry of the same
  name with the empty value stands before it: the search takes the first entry, and the
  answer is "Auth key is required". In the second the entry \<open>null\<close> stands before it:
  the arrow function throws on it. Neither request gets the placeholder embed.
\<close>

theorem login_with_auth_key_counterexample:
  \<open>fetch sample_runtime
      (signed ''{"type":2,"data":{"name":"login","options":[{"name":"auth_key","value":""},{"name":"auth_key","value":"abc123"}]}}'')
      sample_env =
     (calls_to_parse @ [Call_handler ''login''],
      Responded \<lparr>status = 200, headers = json_headers,
        body = ''{"type":4,"data":{"content":"Auth key is required","flags":64}}''\<rparr>)
   \<and> fetch sample_runtime
      (signed ''{"type":2,"data":{"name":"login","options":[null,{"name":"auth_key","value":"abc123"}]}}'')
      sample_env =
     (calls_to_parse @ [Call_handler ''login''], Threw TypeError)\<close>
proof -
  have \<open>fetch sample_runtime
      (signed ''{"type":2,"data":{"name":"login","options":[{"name":"auth_key","value":""},{"name":"auth_key","value":"abc123"}]}}'')
      sample_env =
     (calls_to_parse @ [Call_handler ''login''],
      handleLoginCommand sample_runtime
        (JObj [(''type'', JNum (Finite 2)),
               (''data'', JObj [(''name'', JStr ''login''),
                  (''options'', JArr [JObj [(''name'', JStr ''auth_key''), (''value'', JStr [])],
                                      JObj [(''name'', JStr ''auth_key''), (''value'', JStr ''abc123'')]])])])
        sample_env)\<close>
    using fetch_command [OF authenticated_signed, of _
        "[(''type'', JNum (Finite 2)),
          (''data'', JObj [(''name'', JStr ''login''),
             (''options'', JArr [JObj [(''name'', JStr ''auth_key''), (''value'', JStr [])],
                                 JObj [(''name'', JStr ''auth_key''), (''value'', JStr ''abc123'')]])])]"
        "[(''name'', JStr ''login''),
          (''options'', JArr [JObj [(''name'', JStr ''auth_key''), (''value'', JStr [])],
                              JObj [(''name'', JStr ''auth_key''), (''value'', JStr ''abc123'')]])]"
        "''login''"]
    by (simp add: sample_runs sample_parse_def COMMAND_HANDLERS_get_login)
  moreover have \<open>fetch sample_runtime
      (signed ''{"type":2,"data":{"name":"login","options":[null,{"name":"auth_key","value":"abc123"}]}}'')
      sample_env =
     (calls_to_parse @ [Call_handler ''login''],
      handleLoginCommand sample_runtime
        (JObj [(''type'', JNum (Finite 2)),
               (''data'', JObj [(''name'', JStr ''login''),
                  (''options'', JArr [JNull,
                                      JObj [(''name'', JStr ''auth_key''), (''value'', JStr ''abc123'')]])])])
        sample_env)\<close>
    using fetch_command [OF authenticated_signed, of _
        "[(''type'', JNum (Finite 2)),
          (''data'', JObj [(''name'', JStr ''login''),
             (''options'', JArr [JNull,
                                 JObj [(''name'', JStr ''auth_key''), (''value'', JStr ''abc123'')]])])]"
        "[(''name'', JStr ''login''),
          (''options'', JArr [JNull,
                              JObj [(''name'', JStr ''auth_key''), (''value'', JStr ''abc123'')]])]"
        "''login''"]
    by (simp add: sample_runs sample_parse_def COMMAND_HANDLERS_get_login)
  ultimately show ?thesis
    by (simp add: handleLoginCommand_def authKey_expression_def is_auth_key_def
        jsonResponse_auth_required)
qed

text \<open>
  C7, as the worker has it. An authenticated request whose body parses to an
  interaction of type 2 naming the command \<open>login\<close> is answered with status 200 and
  the ephemeral envelope (\<open>flags\<close> 64) whose one embed has the title "Feature in
  Development" and a description naming the command \<open>login\<close> exactly when its options
  are a list in which the first entry named \<open>auth_key\<close>, every entry before it being
  other than \<open>null\<close>, carries a value that is not empty (not the empty string, zero,
  \<open>false\<close> or \<open>null\<close>).
\<close>

theorem login_with_first_auth_key_is_placeholder:
  assumes "authenticated rt request env"
    and "JSON_parse rt (request_text request) = Some (JObj kvs)"
    and "map_of kvs ''type'' = Some (JNum (Finite 2))"
    and "map_of kvs ''data'' = Some (JObj d)"
    and "map_of d ''name'' = Some (JStr ''login'')"
  shows \<open>fetch rt request env =
      (calls_to_parse @ [Call_handler ''login''],
       Responded \<lparr>status = 200, headers = json_headers,
         body = ''{"type":4,"data":{"embeds":[{"title":"Feature in Development","description":"The `login` command is available in the traditional bot deployment. Full Cloudflare Workers implementation coming soon!","color":12500734,"footer":{"text":"Use the traditional bot (bot.py) for full functionality"}}],"flags":64}}''\<rparr>)
    \<longleftrightarrow>
      (\<exists>pre opt post v.
         map_of d ''options'' = Some (JArr (pre @ JObj opt # post)) \<and>
         (\<forall>p \<in> set pre. passed_over p) \<and>
         map_of opt ''name'' = Some (JStr ''auth_key'') \<and>
         map_of opt ''value'' = Some v \<and>
         v \<notin> {JStr [], JNum (Finite 0), JBool False, JNull})\<close>
    (is "?placeholder \<longleftrightarrow> ?found")
proof
  assume ?found
  then obtain pre opt post v where
    found: "map_of d ''options'' = Some (JArr (pre @ JObj opt # post))"
      "\<forall>p \<in> set pre. passed_over p"
      "map_of opt ''name'' = Some (JStr ''auth_key'')"
    and v: "map_of opt ''value'' = Some v"
      "v \<notin> {JStr [], JNum (Finite 0), JBool False, JNull}"
    by blast
  have "authKey_expression (JObj kvs) = Inr (Some v)"
    using authKey_expression_found[OF assms(4) found] v(1) by simp
  moreover have "ToBoolean (Some v)"
    using v(2) falsy_iff[of v] by blast
  ultimately show ?placeholder
    by (simp add: fetch_command[OF assms(1-5)] COMMAND_HANDLERS_get_login
        handleLoginCommand_def featureComingSoonResponse_body quote_char_def)
next
  assume ?placeholder
  then have placeholder: "handleLoginCommand rt (JObj kvs) env =
      Responded (featureComingSoonResponse rt ''login'')"
    by (simp add: fetch_command[OF assms(1-5)] COMMAND_HANDLERS_get_login
        featureComingSoonResponse_body quote_char_def)
  then obtain a where "authKey_expression (JObj kvs) = Inr a" and "ToBoolean a"
    by (auto simp: handleLoginCommand_def jsonResponse_auth_required
        featureComingSoonResponse_body split: sum.splits if_splits)
  then show ?found
    using assms(4) by (rule authKey_expression_truthyD)
qed

text \<open>The scenario of the specification, with the key \<open>abc123\<close>.\<close>

theorem login_with_first_auth_key_is_placeholder_witness:
  \<open>fetch sample_runtime
      (signed ''{"type":2,"data":{"name":"login","options":[{"name":"auth_key","value":"abc123"}]}}'')
      sample_env =
    (calls_to_parse @ [Call_handler ''login''],
     Responded \<lparr>status = 200, headers = json_headers,
       body = ''{"type":4,"data":{"embeds":[{"title":"Feature in Development","description":"The `login` command is available in the traditional bot deployment. Full Cloudflare Workers implementation coming soon!","color":12500734,"footer":{"text":"Use the traditional bot (bot.py) for full functionality"}}],"flags":64}}''\<rparr>)\<close>
proof -
  have "\<exists>pre opt post v.
         map_of [(''name'', JStr ''login''),
                 (''options'', JArr [JObj [(''name'', JStr ''auth_key''), (''value'', JStr ''abc123'')]])]
           ''options'' = Some (JArr (pre @ JObj opt # post)) \<and>
         (\<forall>p \<in> set pre. passed_over p) \<and>
         map_of opt ''name'' = Some (JStr ''auth_key'') \<and>
         map_of opt ''value'' = Some v \<and>
         v \<notin> {JStr [], JNum (Finite 0), JBool False, JNull}"
    by (intro exI[of _ "[]"] exI[of _ "[(''name'', JStr ''auth_key''), (''value'', JStr ''abc123'')]"]
          exI[of _ "JStr ''abc123''"]) simp
  then show ?thesis
    using login_with_first_auth_key_is_placeholder
      [of sample_runtime
        \<open>signed ''{"type":2,"data":{"name":"login","options":[{"name":"auth_key","value":"abc123"}]}}''\<close>
        sample_env
        "[(''type'', JNum (Finite 2)),
          (''data'', JObj [(''name'', JStr ''login''),
             (''options'', JArr [JObj [(''name'', JStr ''auth_key''), (''value'', JStr ''abc123'')]])])]"
        "[(''name'', JStr ''login''),
          (''options'', JArr [JObj [(''name'', JStr ''auth_key''), (''value'', JStr ''abc123'')]])]"]
    by (simp add: authenticated_signed sample_runs sample_parse_def)
qed

subsection \<open>C8: what the registered handlers do\<close>

text \<open>
  C8, at a concrete handler. The ping handler is registered. On an interaction that
  carries no argument at all it returns a reply that is not ephemeral (its data has
  no \<open>flags\<close>), that is not the placeholder naming \<open>ping\<close> and that is not the
  validation error of the module: it validates nothing and is no placeholder.
\<close>

theorem ping_handler_counterexample:
  \<open>map_of COMMAND_HANDLERS ''ping'' = Some handlePingCommand
   \<and> handlePingCommand sample_runtime
        (JObj [(''type'', JNum (Finite 2)), (''data'', JObj [(''name'', JStr ''ping'')])]) sample_env =
      Responded \<lparr>status = 200, headers = json_headers,
        body = ''{"type":4,"data":{"embeds":[{"title":"'' @ [CHR 0xF0, CHR 0x9F, CHR 0x8F, CHR 0x93]
          @ '' Pong!","description":"Bot is running on Cloudflare Workers!","color":12500734}]}}''\<rparr>
   \<and> handlePingCommand sample_runtime
        (JObj [(''type'', JNum (Finite 2)), (''data'', JObj [(''name'', JStr ''ping'')])]) sample_env \<noteq>
      Responded \<lparr>status = 200, headers = json_headers,
        body = ''{"type":4,"data":{"embeds":[{"title":"Feature in Development","description":"The `ping` command is available in the traditional bot deployment. Full Cloudflare Workers implementation coming soon!","color":12500734,"footer":{"text":"Use the traditional bot (bot.py) for full functionality"}}],"flags":64}}''\<rparr>
   \<and> handlePingCommand sample_runtime
        (JObj [(''type'', JNum (Finite 2)), (''data'', JObj [(''name'', JStr ''ping'')])]) sample_env \<noteq>
      Responded \<lparr>status = 200, headers = json_headers,
        body = ''{"type":4,"data":{"content":"Auth key is required","flags":64}}''\<rparr>\<close>
  by (simp add: COMMAND_HANDLERS_def handlePingCommand_body)

text \<open>
  C8, as the worker has it. Of the five registered handlers:
  \<^item> \<open>start-shift\<close>, \<open>end-shift\<close> and \<open>shift-status\<close> return, on every interaction,
    the ephemeral placeholder whose embed names the command and points to the
    traditional bot (\<open>bot.py\<close>);
  \<^item> \<open>login\<close> validates the argument \<open>auth_key\<close>. It returns the ephemeral validation
    error "Auth key is required" when the argument is missing: when the options are
    absent or \<open>null\<close>, when they are a list all of whose entries the search passes
    over, and when the first entry named \<open>auth_key\<close> (no \<open>null\<close> before it) has no
    value or an empty one (the empty string, zero, \<open>false\<close>, \<open>null\<close>). It returns the
    placeholder naming \<open>login\<close> when that entry has a value that is not empty. It
    ends in no other way but a TypeError;
  \<^item> \<open>ping\<close> is neither: on every interaction it returns one fixed reply that is not
    ephemeral, a "Pong!" embed.
\<close>

theorem registered_handler_outcomes:
  assumes "map_of COMMAND_HANDLERS name = Some handler"
  shows \<open>(name = ''ping'' \<and>
           handler rt interaction env =
             Responded \<lparr>status = 200, headers = json_headers,
               body = ''{"type":4,"data":{"embeds":[{"title":"'' @ [CHR 0xF0, CHR 0x9F, CHR 0x8F, CHR 0x93]
                 @ '' Pong!","description":"Bot is running on Cloudflare Workers!","color":12500734}]}}''\<rparr>)
       \<or> (name = ''login'' \<and>
           (map_of kvs ''data'' = Some (JObj d) \<and> map_of d ''options'' \<in> {None, Some JNull} \<longrightarrow>
              handler rt (JObj kvs) env =
                Responded \<lparr>status = 200, headers = json_headers,
                  body = ''{"type":4,"data":{"content":"Auth key is required","flags":64}}''\<rparr>) \<and>
           (map_of kvs ''data'' = Some (JObj d) \<and> map_of d ''options'' = Some (JArr opts) \<and>
            (\<forall>p \<in> set opts. passed_over p) \<longrightarrow>
              handler rt (JObj kvs) env =
                Responded \<lparr>status = 200, headers = json_headers,
                  body = ''{"type":4,"data":{"content":"Auth key is required","flags":64}}''\<rparr>) \<and>
           (map_of kvs ''data'' = Some (JObj d) \<and>
            map_of d ''options'' = Some (JArr (pre @ JObj opt # post)) \<and>
            (\<forall>p \<in> set pre. passed_over p) \<and>
            map_of opt ''name'' = Some (JStr ''auth_key'') \<and>
            map_of opt ''value'' \<in>
              {None, Some (JStr []), Some (JNum (Finite 0)), Some (JBool False), Some JNull} \<longrightarrow>
              handler rt (JObj kvs) env =
                Responded \<lparr>status = 200, headers = json_headers,
                  body = ''{"type":4,"data":{"content":"Auth key is required","flags":64}}''\<rparr>) \<and>
           (map_of kvs ''data'' = Some (JObj d) \<and>
            map_of d ''options'' = Some (JArr (pre @ JObj opt # post)) \<and>
            (\<forall>p \<in> set pre. passed_over p) \<and>
            map_of opt ''name'' = Some (JStr ''auth_key'') \<and>
            map_of opt ''value'' = Some v \<and>
            v \<notin> {JStr [], JNum (Finite 0), JBool False, JNull} \<longrightarrow>
              handler rt (JObj kvs) env =
                Responded \<lparr>status = 200, headers = json_headers,
                  body = ''{"type":4,"data":{"embeds":[{"title":"Feature in Development","description":"The `login` command is available in the traditional bot deployment. Full Cloudflare Workers implementation coming soon!","color":12500734,"footer":{"text":"Use the traditional bot (bot.py) for full functionality"}}],"flags":64}}''\<rparr>) \<and>
           handler rt interaction env \<in>
             {Responded \<lparr>status = 200, headers = json_headers,
                body = ''{"type":4,"data":{"content":"Auth key is required","flags":64}}''\<rparr>,
              Responded \<lparr>status = 200, headers = json_headers,
                body = ''{"type":4,"data":{"embeds":[{"title":"Feature in Development","description":"The `login` command is available in the traditional bot deployment. Full Cloudflare Workers implementation coming soon!","color":12500734,"footer":{"text":"Use the traditional bot (bot.py) for full functionality"}}],"flags":64}}''\<rparr>,
              Threw TypeError})
       \<or> (name \<in> {''start-shift'', ''end-shift'', ''shift-status''} \<and>
           handler rt interaction env =
             Responded \<lparr>status = 200, headers = json_headers,
               body = ''{"type":4,"data":{"embeds":[{"title":"Feature in Development","description":"The `'' @ name
                 @ ''` command is available in the traditional bot deployment. Full Cloudflare Workers implementation coming soon!","color":12500734,"footer":{"text":"Use the traditional bot (bot.py) for full functionality"}}],"flags":64}}''\<rparr>)\<close>
  using map_of_COMMAND_HANDLERS[OF assms]
proof (elim disjE conjE)
  assume "name = ''ping''" "handler = handlePingCommand"
  then show ?thesis by (simp add: handlePingCommand_body)
next
  assume login: "name = ''login''" "handler = handleLoginCommand"
  have missing: \<open>handleLoginCommand rt (JObj kvs) env =
      Responded \<lparr>status = 200, headers = json_headers,
        body = ''{"type":4,"data":{"content":"Auth key is required","flags":64}}''\<rparr>\<close>
    if "authKey_expression (JObj kvs) = Inr a" "\<not> ToBoolean a" for a
    using that by (simp add: handleLoginCommand_def jsonResponse_auth_required)
  have given: "handleLoginCommand rt (JObj kvs) env =
      Responded (featureComingSoonResponse rt ''login'')"
    if "authKey_expression (JObj kvs) = Inr a" "ToBoolean a" for a
    using that by (simp add: handleLoginCommand_def)
  have 1: \<open>handleLoginCommand rt (JObj kvs) env =
      Responded \<lparr>status = 200, headers = json_headers,
        body = ''{"type":4,"data":{"content":"Auth key is required","flags":64}}''\<rparr>\<close>
    if "map_of kvs ''data'' = Some (JObj d) \<and> map_of d ''options'' \<in> {None, Some JNull}"
    using that by (intro missing[of None]) (simp_all add: authKey_expression_nullish)
  have 2: \<open>handleLoginCommand rt (JObj kvs) env =
      Responded \<lparr>status = 200, headers = json_headers,
        body = ''{"type":4,"data":{"content":"Auth key is required","flags":64}}''\<rparr>\<close>
    if "map_of kvs ''data'' = Some (JObj d) \<and> map_of d ''options'' = Some (JArr opts) \<and>
            (\<forall>p \<in> set opts. passed_over p)"
    using that by (intro missing[of None]) (simp_all add: authKey_expression_not_found)
  have 3: \<open>handleLoginCommand rt (JObj kvs) env =
      Responded \<lparr>status = 200, headers = json_headers,
        body = ''{"type":4,"data":{"content":"Auth key is required","flags":64}}''\<rparr>\<close>
    if "map_of kvs ''data'' = Some (JObj d) \<and>
            map_of d ''options'' = Some (JArr (pre @ JObj opt # post)) \<and>
            (\<forall>p \<in> set pre. passed_over p) \<and>
            map_of opt ''name'' = Some (JStr ''auth_key'') \<and>
            map_of opt ''value'' \<in>
              {None, Some (JStr []), Some (JNum (Finite 0)), Some (JBool False), Some JNull}"
  proof -
    from that have "authKey_expression (JObj kvs) = Inr (map_of opt ''value'')"
      using authKey_expression_found[of kvs d pre opt post] by simp
    moreover from that have "\<not> ToBoolean (map_of opt ''value'')"
      by auto
    ultimately show ?thesis by (rule missing)
  qed
  have 4: "handleLoginCommand rt (JObj kvs) env =
      Responded (featureComingSoonResponse rt ''login'')"
    if "map_of kvs ''data'' = Some (JObj d) \<and>
            map_of d ''options'' = Some (JArr (pre @ JObj opt # post)) \<and>
            (\<forall>p \<in> set pre. passed_over p) \<and>
            map_of opt ''name'' = Some (JStr ''auth_key'') \<and>
            map_of opt ''value'' = Some v \<and>
            v \<notin> {JStr [], JNum (Finite 0), JBool False, JNull}"
  proof -
    from that have "authKey_expression (JObj kvs) = Inr (map_of opt ''value'')"
      using authKey_expression_found[of kvs d pre opt post] by simp
    moreover from that have "ToBoolean (map_of opt ''value'')"
      using falsy_iff[of v] by auto
    ultimately show ?thesis by (rule given)
  qed
  have login_body: \<open>featureComingSoonResponse rt ''login'' =
      \<lparr>status = 200, headers = json_headers,
         body = ''{"type":4,"data":{"embeds":[{"title":"Feature in Development","description":"The `login` command is available in the traditional bot deployment. Full Cloudflare Workers implementation coming soon!","color":12500734,"footer":{"text":"Use the traditional bot (bot.py) for full functionality"}}],"flags":64}}''\<rparr>\<close>
    by (simp add: featureComingSoonResponse_body quote_char_def)
  show ?thesis
    using 1 2 3 4 handleLoginCommand_results[of rt interaction env]
    unfolding login login_body jsonResponse_auth_required
    by (intro disjI2 disjI1 conjI impI) simp_all
next
  assume "name = ''start-shift''" "handler = handleStartShiftCommand"
  then show ?thesis
    by (simp add: handleStartShiftCommand_def featureComingSoonResponse_body quote_char_def)
next
  assume "name = ''end-shift''" "handler = handleEndShiftCommand"
  then show ?thesis
    by (simp add: handleEndShiftCommand_def featureComingSoonResponse_body quote_char_def)
next
  assume "name = ''shift-status''" "handler = handleShiftStatusCommand"
  then show ?thesis
    by (simp add: handleShiftStatusCommand_def featureComingSoonResponse_body quote_char_def)
qed

text \<open>
  Every registered handler on the sample runtime: \<open>ping\<close>, \<open>login\<close> without options
  and with the key \<open>abc123\<close>, and the three shift commands.
\<close>

theorem registered_handler_outcomes_witness:
  \<open>handlePingCommand sample_runtime
      (JObj [(''type'', JNum (Finite 2)), (''data'', JObj [(''name'', JStr ''ping'')])]) sample_env =
     Responded \<lparr>status = 200, headers = json_headers,
       body = ''{"type":4,"data":{"embeds":[{"title":"'' @ [CHR 0xF0, CHR 0x9F, CHR 0x8F, CHR 0x93]
         @ '' Pong!","description":"Bot is running on Cloudflare Workers!","color":12500734}]}}''\<rparr>
   \<and> handleLoginCommand sample_runtime
      (JObj [(''type'', JNum (Finite 2)),
             (''data'', JObj [(''name'', JStr ''login''), (''options'', JArr [])])]) sample_env =
     Responded \<lparr>status = 200, headers = json_headers,
       body = ''{"type":4,"data":{"content":"Auth key is required","flags":64}}''\<rparr>
   \<and> handleLoginCommand sample_runtime
      (JObj [(''type'', JNum (Finite 2)),
             (''data'', JObj [(''name'', JStr ''login''),
                (''options'', JArr [JObj [(''name'', JStr ''auth_key''), (''value'', JStr ''abc123'')]])])])
      sample_env =
     Responded \<lparr>status = 200, headers = json_headers,
       body = ''{"type":4,"data":{"embeds":[{"title":"Feature in Development","description":"The `login` command is available in the traditional bot deployment. Full Cloudflare Workers implementation coming soon!","color":12500734,"footer":{"text":"Use the traditional bot (bot.py) for full functionality"}}],"flags":64}}''\<rparr>
   \<and> handleStartShiftCommand sample_runtime
      (JObj [(''type'', JNum (Finite 2)), (''data'', JObj [(''name'', JStr ''start-shift'')])])
      sample_env =
     Responded \<lparr>status = 200, headers = json_headers,
       body = ''{"type":4,"data":{"embeds":[{"title":"Feature in Development","description":"The `start-shift` command is available in the traditional bot deployment. Full Cloudflare Workers implementation coming soon!","color":12500734,"footer":{"text":"Use the traditional bot (bot.py) for full functionality"}}],"flags":64}}''\<rparr>
   \<and> handleEndShiftCommand sample_runtime
      (JObj [(''type'', JNum (Finite 2)), (''data'', JObj [(''name'', JStr ''end-shift'')])])
      sample_env =
     Responded \<lparr>status = 200, headers = json_headers,
       body = ''{"type":4,"data":{"embeds":[{"title":"Feature in Development","description":"The `end-shift` command is available in the traditional bot deployment. Full Cloudflare Workers implementation coming soon!","color":12500734,"footer":{"text":"Use the traditional bot (bot.py) for full functionality"}}],"flags":64}}''\<rparr>
   \<and> handleShiftStatusCommand sample_runtime
      (JObj [(''type'', JNum (Finite 2)), (''data'', JObj [(''name'', JStr ''shift-status'')])])
      sample_env =
     Responded \<lparr>status = 200, headers = json_headers,
       body = ''{"type":4,"data":{"embeds":[{"title":"Feature in Development","description":"The `shift-status` command is available in the traditional bot deployment. Full Cloudflare Workers implementation coming soon!","color":12500734,"footer":{"text":"Use the traditional bot (bot.py) for full functionality"}}],"flags":64}}''\<rparr>\<close>
proof (intro conjI)
  show \<open>handlePingCommand sample_runtime
      (JObj [(''type'', JNum (Finite 2)), (''data'', JObj [(''name'', JStr ''ping'')])]) sample_env =
     Responded \<lparr>status = 200, headers = json_headers,
       body = ''{"type":4,"data":{"embeds":[{"title":"'' @ [CHR 0xF0, CHR 0x9F, CHR 0x8F, CHR 0x93]
         @ '' Pong!","description":"Bot is running on Cloudflare Workers!","color":12500734}]}}''\<rparr>\<close>
    using registered_handler_outcomes
      [where name = "''ping''" and handler = handlePingCommand and rt = sample_runtime
         and env = sample_env
         and interaction = "JObj [(''type'', JNum (Finite 2)), (''data'', JObj [(''name'', JStr ''ping'')])]"]
    by (simp add: COMMAND_HANDLERS_def)
next
  show \<open>handleLoginCommand sample_runtime
      (JObj [(''type'', JNum (Finite 2)),
             (''data'', JObj [(''name'', JStr ''login''), (''options'', JArr [])])]) sample_env =
     Responded \<lparr>status = 200, headers = json_headers,
       body = ''{"type":4,"data":{"content":"Auth key is required","flags":64}}''\<rparr>\<close>
    using registered_handler_outcomes
      [where name = "''login''" and handler = handleLoginCommand and rt = sample_runtime
         and env = sample_env
         and kvs = "[(''type'', JNum (Finite 2)),
                     (''data'', JObj [(''name'', JStr ''login''), (''options'', JArr [])])]"
         and d = "[(''name'', JStr ''login''), (''options'', JArr [])]"
         and opts = "[]"]
    by (simp add: COMMAND_HANDLERS_def)
next
  show \<open>handleLoginCommand sample_runtime
      (JObj [(''type'', JNum (Finite 2)),
             (''data'', JObj [(''name'', JStr ''login''),
                (''options'', JArr [JObj [(''name'', JStr ''auth_key''), (''value'', JStr ''abc123'')]])])])
      sample_env =
     Responded \<lparr>status = 200, headers = json_headers,
       body = ''{"type":4,"data":{"embeds":[{"title":"Feature in Development","description":"The `login` command is available in the traditional bot deployment. Full Cloudflare Workers implementation coming soon!","color":12500734,"footer":{"text":"Use the traditional bot (bot.py) for full functionality"}}],"flags":64}}''\<rparr>\<close>
    using registered_handler_outcomes
      [where name = "''login''" and handler = handleLoginCommand and rt = sample_runtime
         and env = sample_env
         and kvs = "[(''type'', JNum (Finite 2)),
                     (''data'', JObj [(''name'', JStr ''login''),
                        (''options'', JArr [JObj [(''name'', JStr ''auth_key''), (''value'', JStr ''abc123'')]])])]"
         and d = "[(''name'', JStr ''login''),
                   (''options'', JArr [JObj [(''name'', JStr ''auth_key''), (''value'', JStr ''abc123'')]])]"
         and pre = "[]" and post = "[]"
         and opt = "[(''name'', JStr ''auth_key''), (''value'', JStr ''abc123'')]"
         and v = "JStr ''abc123''"]
    by (simp add: COMMAND_HANDLERS_def)
next
  show \<open>handleStartShiftCommand sample_runtime
      (JObj [(''type'', JNum (Finite 2)), (''data'', JObj [(''name'', JStr ''start-shift'')])])
      sample_env =
     Responded \<lparr>status = 200, headers = json_headers,
       body = ''{"type":4,"data":{"embeds":[{"title":"Feature in Development","description":"The `start-shift` command is available in the traditional bot deployment. Full Cloudflare Workers implementation coming soon!","color":12500734,"footer":{"text":"Use the traditional bot (bot.py) for full functionality"}}],"flags":64}}''\<rparr>\<close>
    using registered_handler_outcomes
      [where name = "''start-shift''" and handler = handleStartShiftCommand and rt = sample_runtime
         and env = sample_env
         and interaction = "JObj [(''type'', JNum (Finite 2)), (''data'', JObj [(''name'', JStr ''start-shift'')])]"]
    by (simp add: COMMAND_HANDLERS_def)
next
  show \<open>handleEndShiftCommand sample_runtime
      (JObj [(''type'', JNum (Finite 2)), (''data'', JObj [(''name'', JStr ''end-shift'')])])
      sample_env =
     Responded \<lparr>status = 200, headers = json_headers,
       body = ''{"type":4,"data":{"embeds":[{"title":"Feature in Development","description":"The `end-shift` command is available in the traditional bot deployment. Full Cloudflare Workers implementation coming soon!","color":12500734,"footer":{"text":"Use the traditional bot (bot.py) for full functionality"}}],"flags":64}}''\<rparr>\<close>
    using registered_handler_outcomes
      [where name = "''end-shift''" and handler = handleEndShiftCommand and rt = sample_runtime
         and env = sample_env
         and interaction = "JObj [(''type'', JNum (Finite 2)), (''data'', JObj [(''name'', JStr ''end-shift'')])]"]
    by (simp add: COMMAND_HANDLERS_def)
next
  show \<open>handleShiftStatusCommand sample_runtime
      (JObj [(''type'', JNum (Finite 2)), (''data'', JObj [(''name'', JStr ''shift-status'')])])
      sample_env =
     Responded \<lparr>status = 200, headers = json_headers,
       body = ''{"type":4,"data":{"embeds":[{"title":"Feature in Development","description":"The `shift-status` command is available in the traditional bot deployment. Full Cloudflare Workers implementation coming soon!","color":12500734,"footer":{"text":"Use the traditional bot (bot.py) for full functionality"}}],"flags":64}}''\<rparr>\<close>
    using registered_handler_outcomes
      [where name = "''shift-status''" and handler = handleShiftStatusCommand and rt = sample_runtime
         and env = sample_env
         and interaction = "JObj [(''type'', JNum (Finite 2)), (''data'', JObj [(''name'', JStr ''shift-status'')])]"]
    by (simp add: COMMAND_HANDLERS_def)
qed

subsection \<open>C9: replay\<close>



subsection \<open>C10: an \<open>auth_key\<close> that is falsy\<close>

text \<open>
  C10, at two concrete interactions. Both carry an options entry named \<open>auth_key\<close>
  whose value is the empty string. In the first an entry of the same name with the
  value \<open>abc123\<close> stands before it: the search takes the first entry, and the login
  handler returns the placeholder, not "Auth key is required". In the second the
  entry \<open>null\<close> stands before it, and the handler throws.
\<close>

theorem falsy_auth_key_counterexample:
  \<open>handleLoginCommand sample_runtime
      (JObj [(''type'', JNum (Finite 2)),
             (''data'', JObj [(''name'', JStr ''login''),
                (''options'', JArr [JObj [(''name'', JStr ''auth_key''), (''value'', JStr ''abc123'')],
                                    JObj [(''name'', JStr ''auth_key''), (''value'', JStr [])]])])])
      sample_env =
     Responded \<lparr>status = 200, headers = json_headers,
       body = ''{"type":4,"data":{"embeds":[{"title":"Feature in Development","description":"The `login` command is available in the traditional bot deployment. Full Cloudflare Workers implementation coming soon!","color":12500734,"footer":{"text":"Use the traditional bot (bot.py) for full functionality"}}],"flags":64}}''\<rparr>
   \<and> handleLoginCommand sample_runtime
      (JObj [(''type'', JNum (Finite 2)),
             (''data'', JObj [(''name'', JStr ''login''),
                (''options'', JArr [JNull,
                                    JObj [(''name'', JStr ''auth_key''), (''value'', JStr [])]])])])
      sample_env = Threw TypeError\<close>
  by (simp add: handleLoginCommand_def authKey_expression_def is_auth_key_def
      featureComingSoonResponse_body quote_char_def)

text \<open>
  C10, as the worker has it. When the options of a login interaction are a list and
  the first entry named \<open>auth_key\<close>, every entry before it being other than \<open>null\<close>,
  has a falsy value (the empty string, zero, \<open>false\<close> or \<open>null\<close>), the login handler
  returns the ephemeral "Auth key is required" response and not the placeholder: the
  response it returns for an interaction without the option, whose options are absent,
  \<open>null\<close> or a list all of whose entries the search passes over.
\<close>

theorem falsy_first_auth_key_counts_as_absent:
  assumes "map_of kvs ''data'' = Some (JObj d)"
    and "map_of d ''options'' = Some (JArr (pre @ JObj opt # post))"
    and "\<forall>p \<in> set pre. passed_over p"
    and "map_of opt ''name'' = Some (JStr ''auth_key'')"
    and "map_of opt ''value'' = Some v"
    and "v \<in> {JStr [], JNum (Finite 0), JBool False, JNull}"
    and "map_of kvs' ''data'' = Some (JObj d')"
    and "map_of d' ''options'' \<in> {None, Some JNull} \<or>
         (\<exists>opts'. map_of d' ''options'' = Some (JArr opts') \<and> (\<forall>p \<in> set opts'. passed_over p))"
  shows \<open>handleLoginCommand rt (JObj kvs) env =
      Responded \<lparr>status = 200, headers = json_headers,
        body = ''{"type":4,"data":{"content":"Auth key is required","flags":64}}''\<rparr>
    \<and> handleLoginCommand rt (JObj kvs) env = handleLoginCommand rt (JObj kvs') env
    \<and> handleLoginCommand rt (JObj kvs) env \<noteq>
      Responded \<lparr>status = 200, headers = json_headers,
        body = ''{"type":4,"data":{"embeds":[{"title":"Feature in Development","description":"The `login` command is available in the traditional bot deployment. Full Cloudflare Workers implementation coming soon!","color":12500734,"footer":{"text":"Use the traditional bot (bot.py) for full functionality"}}],"flags":64}}''\<rparr>\<close>
proof -
  have present: "authKey_expression (JObj kvs) = Inr (Some v)"
    using authKey_expression_found[OF assms(1-4)] assms(5) by simp
  have absent: "authKey_expression (JObj kvs') = Inr None"
    using assms(8)
  proof
    assume "map_of d' ''options'' \<in> {None, Some JNull}"
    with assms(7) show ?thesis by (rule authKey_expression_nullish)
  next
    assume "\<exists>opts'. map_of d' ''options'' = Some (JArr opts') \<and> (\<forall>p \<in> set opts'. passed_over p)"
    then obtain opts' where
      "map_of d' ''options'' = Some (JArr opts')" "\<forall>p \<in> set opts'. passed_over p"
      by blast
    with assms(7) show ?thesis by (rule authKey_expression_not_found)
  qed
  have falsy: "\<not> ToBoolean (Some v)"
    using assms(6) by (simp add: falsy_iff)
  show ?thesis
    using falsy
    by (simp add: handleLoginCommand_def present absent jsonResponse_auth_required)
qed

text \<open>The empty string as key, against an interaction without options.\<close>

theorem falsy_first_auth_key_counts_as_absent_witness:
  \<open>handleLoginCommand sample_runtime
      (JObj [(''type'', JNum (Finite 2)),
             (''data'', JObj [(''name'', JStr ''login''),
                (''options'', JArr [JObj [(''name'', JStr ''auth_key''), (''value'', JStr [])]])])])
      sample_env =
      Responded \<lparr>status = 200, headers = json_headers,
        body = ''{"type":4,"data":{"content":"Auth key is required","flags":64}}''\<rparr>
    \<and> handleLoginCommand sample_runtime
      (JObj [(''type'', JNum (Finite 2)),
             (''data'', JObj [(''name'', JStr ''login''),
                (''options'', JArr [JObj [(''name'', JStr ''auth_key''), (''value'', JStr [])]])])])
      sample_env =
      handleLoginCommand sample_runtime
        (JObj [(''type'', JNum (Finite 2)), (''data'', JObj [(''name'', JStr ''login'')])])
        sample_env\<close>
  using falsy_first_auth_key_counts_as_absent
    [where kvs = "[(''type'', JNum (Finite 2)),
             (''data'', JObj [(''name'', JStr ''login''),
                (''options'', JArr [JObj [(''name'', JStr ''auth_key''), (''value'', JStr [])]])])]"
       and d = "[(''name'', JStr ''login''),
                (''options'', JArr [JObj [(''name'', JStr ''auth_key''), (''value'', JStr [])]])]"
       and pre = "[]" and post = "[]"
       and opt = "[(''name'', JStr ''auth_key''), (''value'', JStr [])]" and v = "JStr []"
       and kvs' = "[(''type'', JNum (Finite 2)), (''data'', JObj [(''name'', JStr ''login'')])]"
       and d' = "[(''name'', JStr ''login'')]"
       and rt = sample_runtime and env = sample_env]
  by auto

end
